theory Spec2Isabelle
  imports Main
begin

section \<open>JavaScript string primitives\<close>

text \<open>
  Strings are lists of code units. A \<^typ>\<open>char\<close> stands for one UTF-16 code unit of
  the source's strings, restricted to the range 0..255; \<open>length\<close> is the source's
  \<^verbatim>\<open>.length\<close>.

  \<^verbatim>\<open>String.prototype.trim\<close> removes white space and line terminators from both ends.
  In the range 0..255 these are TAB, LF, VT, FF, CR, SPACE and NBSP.
\<close>

definition is_space :: "char \<Rightarrow> bool" where
  "is_space c = (c \<in> set [CHR 0x09, CHR 0x0A, CHR 0x0B, CHR 0x0C, CHR 0x0D, CHR 0x20, CHR 0xA0])"

definition trim :: "string \<Rightarrow> string" where
  "trim s = rev (dropWhile is_space (rev (dropWhile is_space s)))"

text \<open>\<^verbatim>\<open>s.split(c)\<close> for a one-character separator: never the empty list.\<close>

fun split :: "char \<Rightarrow> string \<Rightarrow> string list" where
  "split c [] = [[]]"
| "split c (x # xs) =
     (if x = c then [] # split c xs
      else (case split c xs of [] \<Rightarrow> [[x]] | l # ls \<Rightarrow> (x # l) # ls))"

text \<open>\<^verbatim>\<open>xs.join(sep)\<close> on an array of strings.\<close>

fun join :: "string \<Rightarrow> string list \<Rightarrow> string" where
  "join sep [] = []"
| "join sep [x] = x"
| "join sep (x # y # ys) = x @ sep @ join sep (y # ys)"

definition startsWith :: "string \<Rightarrow> string \<Rightarrow> bool" where
  "startsWith s p = (take (length p) s = p)"

text \<open>
  \<^verbatim>\<open>s.replace(pat, rep)\<close> with a string pattern: the first occurrence of \<open>pat\<close>,
  wherever it stands, is replaced; nothing else changes.
\<close>

fun replace_first :: "string \<Rightarrow> string \<Rightarrow> string \<Rightarrow> string" where
  "replace_first pat rep s =
     (if startsWith s pat then rep @ drop (length pat) s
      else (case s of [] \<Rightarrow> [] | c # cs \<Rightarrow> c # replace_first pat rep cs))"

text \<open>\<^verbatim>\<open>s.replace(/^prefix/, '')\<close>: a pattern anchored at the start.\<close>

definition strip_prefix :: "string \<Rightarrow> string \<Rightarrow> string" where
  "strip_prefix p s = (if startsWith s p then drop (length p) s else s)"

text \<open>
  Truthiness of an optional string (\<^verbatim>\<open>if (x)\<close>): absent and the empty string are
  falsy. \<open>js_str\<close> is what a template literal prints for a possibly absent string,
  \<open>or_else\<close> is \<^verbatim>\<open>x || d\<close> with a string default, \<open>or_opt\<close> is \<^verbatim>\<open>x || y\<close>.
\<close>

definition truthy :: "string option \<Rightarrow> bool" where
  "truthy x = (case x of None \<Rightarrow> False | Some s \<Rightarrow> s \<noteq> [])"

definition js_str :: "string option \<Rightarrow> string" where
  "js_str x = (case x of None \<Rightarrow> ''undefined'' | Some s \<Rightarrow> s)"

definition or_else :: "string option \<Rightarrow> string \<Rightarrow> string" where
  "or_else x d = (case x of None \<Rightarrow> d | Some s \<Rightarrow> if s = [] then d else s)"

definition or_opt :: "string option \<Rightarrow> string option \<Rightarrow> string option" where
  "or_opt x y = (if truthy x then x else y)"

section \<open>Plain objects used as tables\<close>

text \<open>
  The lookup tables of the handlers are plain objects created by \<^verbatim>\<open>{}\<close>. A table is
  modelled by its own properties. A read \<^verbatim>\<open>table[key]\<close> finds the table's own property
  of that name and otherwise what the name inherits from \<^verbatim>\<open>Object.prototype\<close>: a
  function for eleven names, the prototype object itself for \<^verbatim>\<open>__proto__\<close>. An inherited
  member is truthy, is not iterable, has no \<^verbatim>\<open>push\<close>, and has none of the properties
  the handlers read from a stored payload.
\<close>

definition object_prototype_names :: "string list" where
  "object_prototype_names =
     [''constructor'', ''__defineGetter__'', ''__defineSetter__'', ''hasOwnProperty'', ''__lookupGetter__'',
      ''__lookupSetter__'', ''isPrototypeOf'', ''propertyIsEnumerable'', ''toString'', ''valueOf'',
      ''__proto__'', ''toLocaleString'']"

datatype 'v member = Own 'v | Inherited string

definition table_get :: "(string \<rightharpoonup> 'v) \<Rightarrow> string \<Rightarrow> 'v member option" where
  "table_get table key =
     (case table key of
        Some v \<Rightarrow> Some (Own v)
      | None \<Rightarrow> if key \<in> set object_prototype_names then Some (Inherited key) else None)"

text \<open>
  \<^verbatim>\<open>table[key] || []\<close> on a table of arrays, iterated afterwards by \<^verbatim>\<open>for ... of\<close>:
  \<open>None\<close> when the value is an inherited member, on which the iteration throws a
  \<^verbatim>\<open>TypeError\<close>.
\<close>

definition table_list :: "(string \<rightharpoonup> 'v list) \<Rightarrow> string \<Rightarrow> 'v list option" where
  "table_list table key =
     (case table_get table key of
        None \<Rightarrow> Some []
      | Some (Own xs) \<Rightarrow> Some xs
      | Some (Inherited name) \<Rightarrow> None)"

text \<open>
  \<^verbatim>\<open>if (!table[key]) table[key] = []\<close> followed by a \<^verbatim>\<open>table[key].push(x)\<close> for each
  \<open>x\<close> of \<open>xs\<close>, inside a \<^verbatim>\<open>try\<close>. Under an inherited name no array is created and
  every \<^verbatim>\<open>push\<close> throws into the \<^verbatim>\<open>catch\<close>, so the table stays as it is.
\<close>

definition table_append :: "(string \<rightharpoonup> 'v list) \<Rightarrow> string \<Rightarrow> 'v list \<Rightarrow> (string \<rightharpoonup> 'v list)" where
  "table_append table key xs =
     (case table_get table key of
        None \<Rightarrow> table(key \<mapsto> xs)
      | Some (Own ys) \<Rightarrow> table(key \<mapsto> ys @ xs)
      | Some (Inherited name) \<Rightarrow> table)"

text \<open>
  \<^verbatim>\<open>table[key] = value\<close> with a string value. Under the name \<^verbatim>\<open>__proto__\<close> the
  assignment runs the prototype setter, which ignores a value that is not an object.
\<close>

definition table_put_string :: "(string \<rightharpoonup> string) \<Rightarrow> string \<Rightarrow> string \<Rightarrow> (string \<rightharpoonup> string)" where
  "table_put_string table key v = (if key = ''__proto__'' then table else table(key \<mapsto> v))"

section \<open>Decoded records of the global store\<close>

text \<open>
  The payloads are the values \<^verbatim>\<open>JSON.parse\<close> returns, with the shapes the code reads.
  Every field the code tests for presence is optional. \<open>Unparsable\<close> stands for a
  nested JSON string on which \<^verbatim>\<open>JSON.parse\<close> (or the first property access on its
  result) throws inside the surrounding \<^verbatim>\<open>try\<close>.
\<close>

datatype 'a parsed = Unparsable | Parsed 'a

subsection \<open>Rich text\<close>

datatype rnode = RNode (n_type: "string option") (n_text: "string option") (n_children: "rnode list option")

text \<open>
  \<open>b_text\<close>: \<open>None\<close> is an absent or \<^verbatim>\<open>null\<close> field (or \<^verbatim>\<open>false\<close> or 0),
  \<open>Some (Str t)\<close> a string, \<open>Some NonString\<close> any other value, which is truthy and has no
  \<^verbatim>\<open>trim\<close> method (a number, \<^verbatim>\<open>true\<close>, an object, an array).
  \<open>b_richText\<close>: \<open>None\<close> is an absent or empty field; \<open>Parsed None\<close> is a document
  without \<^verbatim>\<open>root.children\<close>.
  \<open>b_codeBlocks\<close>: an element \<open>None\<close> is a \<^verbatim>\<open>null\<close> in the array.
\<close>

datatype js_text = Str string | NonString

record code_block =
  cb_language :: "string option"
  cb_content :: "string option"

record uri =
  uri_path :: "string option"

record file_selection =
  fs_uri :: "uri option"

record bubble_context =
  fileSelections :: "file_selection option list option"

record bubble =
  b_text :: "js_text option"
  b_richText :: "rnode list option parsed option"
  b_codeBlocks :: "code_block option list option"
  b_timestamp :: "int option"
  b_relevantFiles :: "string list option"
  b_attachedFileCodeChunksUris :: "uri option list option"
  b_context :: "bubble_context option"

text \<open>
  \<^verbatim>\<open>bubbleMap[bubbleId]\<close>. The table holds objects only, so an own entry is truthy. An
  inherited member is truthy as well and is then read like a bubble: it has none of the
  fields of a bubble.

  The assignment \<^verbatim>\<open>bubbleMap[bubbleId] = bubble\<close> under the id \<^verbatim>\<open>__proto__\<close> does not create
  an own property: it makes the bubble the prototype of the table. The entry \<open>__proto__\<close>
  of the modelled table stands for that prototype. A read of \<^verbatim>\<open>__proto__\<close> answers it, and
  a name that is not an own property is then looked up among the fields of that bubble
  first. A field value found there is used like a bubble when it is truthy, and it has
  none of the fields of a bubble either.
\<close>

definition no_fields :: bubble where
  "no_fields = \<lparr>b_text = None, b_richText = None, b_codeBlocks = None, b_timestamp = None,
       b_relevantFiles = None, b_attachedFileCodeChunksUris = None, b_context = None\<rparr>"

definition truthy_fields :: "bubble \<Rightarrow> string list" where
  "truthy_fields p =
     (case b_text p of None \<Rightarrow> [] | Some NonString \<Rightarrow> [''text''] | Some (Str t) \<Rightarrow> if t \<noteq> [] then [''text''] else [])
     @ (case b_richText p of None \<Rightarrow> [] | Some v \<Rightarrow> [''richText''])
     @ (case b_codeBlocks p of None \<Rightarrow> [] | Some v \<Rightarrow> [''codeBlocks''])
     @ (case b_timestamp p of None \<Rightarrow> [] | Some t \<Rightarrow> if t \<noteq> 0 then [''timestamp''] else [])
     @ (case b_relevantFiles p of None \<Rightarrow> [] | Some v \<Rightarrow> [''relevantFiles''])
     @ (case b_attachedFileCodeChunksUris p of None \<Rightarrow> [] | Some v \<Rightarrow> [''attachedFileCodeChunksUris''])
     @ (case b_context p of None \<Rightarrow> [] | Some v \<Rightarrow> [''context''])"

definition lookup_bubble :: "(string \<rightharpoonup> bubble) \<Rightarrow> string \<Rightarrow> bubble option" where
  "lookup_bubble bubbleMap bubbleId =
     (case bubbleMap bubbleId of
        Some b \<Rightarrow> Some b
      | None \<Rightarrow>
          if (case bubbleMap ''__proto__'' of None \<Rightarrow> False | Some p \<Rightarrow> bubbleId \<in> set (truthy_fields p))
          then Some no_fields
          else if bubbleId \<in> set object_prototype_names then Some no_fields
          else None)"

subsection \<open>Tool actions (code block diffs)\<close>

text \<open>
  \<open>r_exitCodeV2\<close>: \<open>None\<close> when the property is \<^verbatim>\<open>undefined\<close>; otherwise the text a
  template literal prints for its value, which is \<open>null\<close> for a JSON \<^verbatim>\<open>null\<close> and for a
  number what \<^verbatim>\<open>Number.prototype.toString\<close> gives (decimal digits, exponent form from
  \<open>1e21\<close> on).
\<close>

record model_diff =
  modified :: "string list option"

record tool_params =
  p_command :: "string option"
  p_target_file :: "string option"
  p_query :: "string option"
  p_instructions :: "string option"

record found_file =
  ff_name :: "string option"
  ff_path :: "string option"
  ff_type :: "string option"

record search_hit =
  sh_file :: "string option"
  sh_content :: "string option"

record tool_result =
  r_output :: "string option"
  r_contents :: "string option"
  r_exitCodeV2 :: "string option"
  r_files :: "found_file list option"
  r_results :: "search_hit list option"

record web_hit =
  w_title :: "string option"

record tool_action =
  newModelDiffWrtV0 :: "model_diff list option"
  filePath :: "string option"
  command :: "string option"
  searchResults :: "string option"
  webResults :: "string option"
  toolName :: "string option"
  parameters :: "tool_params parsed option"
  result :: "tool_result parsed option"
  actionsTaken :: "string list option"
  filesModified :: "string list option"
  gitStatus :: "string option"
  directoryListed :: "string option"
  webSearchResults :: "web_hit list option"
  diffId :: "string option"

subsection \<open>Composer data, headers and request contexts\<close>

text \<open>
  \<open>codeBlockData\<close> holds what \<^verbatim>\<open>Object.keys(composerData.codeBlockData)\<close> lists, in
  that order. A header without \<^verbatim>\<open>bubbleId\<close> has \<open>h_bubbleId = None\<close>; used as a
  property key it reads \<open>undefined\<close>.
\<close>

record created_file =
  cf_uri :: "uri option"

record header =
  h_bubbleId :: "string option"
  h_type :: "int option"

record composer_data =
  cd_name :: "string option"
  newlyCreatedFiles :: "created_file list option"
  codeBlockData :: "string list option"
  fullConversationHeadersOnly :: "header list option"
  lastUpdatedAt :: "int option"
  createdAt :: "int option"

record terminal_file =
  tf_path :: "string option"

record folder_file =
  fo_name :: "string option"
  fo_type :: "string option"

record attached_folder =
  af_path :: "string option"
  af_files :: "folder_file list option"

record cursor_rule =
  cr_name :: "string option"
  cr_description :: "string option"

record summarized_composer =
  sc_name :: "string option"
  sc_composerId :: "string option"

text \<open>
  One entry of \<^verbatim>\<open>context.projectLayouts\<close>: not a string, a string that is not JSON,
  or a JSON object with its optional \<^verbatim>\<open>rootPath\<close>.
\<close>

datatype layout = NotAString | BadLayout | Layout "string option"

record message_context =
  mc_bubbleId :: "string option"
  gitStatusRaw :: "string option"
  terminalFiles :: "terminal_file list option"
  attachedFoldersListDirResults :: "attached_folder list option"
  cursorRules :: "cursor_rule list option"
  summarizedComposers :: "summarized_composer list option"
  projectLayouts :: "layout list option"

subsection \<open>The storage directory\<close>

text \<open>
  What a request reads from the file system: the listing of the storage root
  (\<open>None\<close> when \<^verbatim>\<open>readdir\<close> throws), which paths exist, what
  \<^verbatim>\<open>JSON.parse(readFileSync(path))\<close> gives for a \<^verbatim>\<open>workspace.json\<close> (\<open>None\<close> when reading
  or parsing throws), the modification time \<^verbatim>\<open>fs.stat\<close> reports (\<open>None\<close> when it
  throws because the file is missing), and what the legacy chat data query on a
  workspace's own store gives (\<open>None\<close> when opening or querying the store throws).
\<close>

datatype chatdata_row = NoRow | NotJson | ChatData "nat option"

record workspace_json =
  folder :: "string option"

record dirent =
  d_name :: string
  d_isDirectory :: bool

record filesystem =
  readdir :: "dirent list option"
  existsSync :: "string \<Rightarrow> bool"
  read_workspace_json :: "string \<Rightarrow> workspace_json option"
  stat_mtime :: "string \<Rightarrow> int option"
  query_chatdata :: "string \<Rightarrow> chatdata_row option"

record workspace_entry =
  we_name :: string
  workspaceJsonPath :: string

section \<open>Text extraction\<close>

text \<open>
  \<^verbatim>\<open>extractTextFromRichText\<close>: depth first over the children; a text leaf contributes
  its text, a code node fences what its children give, any other node with children
  contributes what they give.
\<close>

fun extractTextFromRichText :: "rnode list \<Rightarrow> string"
  and extract_child :: "rnode \<Rightarrow> string" where
  "extractTextFromRichText [] = []"
| "extractTextFromRichText (child # children) = extract_child child @ extractTextFromRichText children"
| "extract_child (RNode ty tx ch) =
     (if ty = Some ''text'' \<and> truthy tx then js_str tx
      else (case ch of
              None \<Rightarrow> []
            | Some cs \<Rightarrow>
                if ty = Some ''code''
                then ''\<newline>```\<newline>'' @ extractTextFromRichText cs @ ''\<newline>```\<newline>''
                else extractTextFromRichText cs))"

text \<open>
  The three steps of \<^verbatim>\<open>extractTextFromBubble\<close>, in the source's order. \<open>None\<close> is a
  \<^verbatim>\<open>TypeError\<close> that leaves the function: the first and the third step stand outside
  every \<^verbatim>\<open>try\<close>, so \<^verbatim>\<open>bubble.text.trim()\<close> throws on a truthy text that is not a
  string and \<^verbatim>\<open>codeBlock.content\<close> throws on a \<^verbatim>\<open>null\<close> element. The second step
  catches what it throws.
\<close>

definition direct_text :: "bubble \<Rightarrow> string option" where
  "direct_text b =
     (case b_text b of
        None \<Rightarrow> Some []
      | Some NonString \<Rightarrow> None
      | Some (Str t) \<Rightarrow> Some (if t \<noteq> [] \<and> trim t \<noteq> [] then t else []))"

definition rich_text :: "bubble \<Rightarrow> string \<Rightarrow> string" where
  "rich_text b text =
     (if text = [] then
        (case b_richText b of
           None \<Rightarrow> text
         | Some Unparsable \<Rightarrow> text
         | Some (Parsed None) \<Rightarrow> text
         | Some (Parsed (Some children)) \<Rightarrow> extractTextFromRichText children)
      else text)"

definition code_block_text :: "code_block \<Rightarrow> string" where
  "code_block_text codeBlock =
     (if truthy (cb_content codeBlock)
      then ''\<newline>\<newline>```'' @ or_else (cb_language codeBlock) [] @ ''\<newline>''
             @ js_str (cb_content codeBlock) @ ''\<newline>```''
      else [])"

fun code_blocks_text :: "code_block option list \<Rightarrow> string option" where
  "code_blocks_text [] = Some []"
| "code_blocks_text (None # rest) = None"
| "code_blocks_text (Some codeBlock # rest) =
     (case code_blocks_text rest of
        None \<Rightarrow> None
      | Some fenced \<Rightarrow> Some (code_block_text codeBlock @ fenced))"

definition extractTextFromBubble :: "bubble \<Rightarrow> string option" where
  "extractTextFromBubble b =
     (case direct_text b of
        None \<Rightarrow> None
      | Some text \<Rightarrow>
          (let text = rich_text b text
           in case b_codeBlocks b of
                None \<Rightarrow> Some text
              | Some blocks \<Rightarrow>
                  (case code_blocks_text blocks of
                     None \<Rightarrow> None
                   | Some fenced \<Rightarrow> Some (text @ fenced))))"

section \<open>The tool action formatter\<close>

fun code_changes :: "model_diff list \<Rightarrow> string" where
  "code_changes [] = []"
| "code_changes (diff # rest) =
     (case modified diff of
        None \<Rightarrow> []
      | Some ls \<Rightarrow>
          if ls \<noteq> []
          then ''\<newline>\<newline>**Code Changes:**\<newline>```\<newline>'' @ join ''\<newline>'' ls @ ''\<newline>```''
          else []) @ code_changes rest"

definition sec_code_changes :: "model_diff list option \<Rightarrow> string" where
  "sec_code_changes f = (case f of None \<Rightarrow> [] | Some ds \<Rightarrow> code_changes ds)"

definition sec_file :: "string option \<Rightarrow> string" where
  "sec_file f = (if truthy f then ''\<newline>\<newline>**File:** '' @ js_str f else [])"

definition sec_command :: "string option \<Rightarrow> string" where
  "sec_command f = (if truthy f then ''\<newline>\<newline>**Command:** `'' @ js_str f @ ''`'' else [])"

definition sec_search_results :: "string option \<Rightarrow> string" where
  "sec_search_results f = (if truthy f then ''\<newline>\<newline>**Search Results:**\<newline>'' @ js_str f else [])"

definition sec_web_results :: "string option \<Rightarrow> string" where
  "sec_web_results f = (if truthy f then ''\<newline>\<newline>**Web Search:**\<newline>'' @ js_str f else [])"

definition params_text :: "tool_params parsed option \<Rightarrow> string" where
  "params_text f =
     (case f of
        None \<Rightarrow> []
      | Some Unparsable \<Rightarrow> []
      | Some (Parsed params) \<Rightarrow>
          (if truthy (p_command params) then ''\<newline>**Command:** `'' @ js_str (p_command params) @ ''`'' else [])
          @ (if truthy (p_target_file params) then ''\<newline>**File:** '' @ js_str (p_target_file params) else [])
          @ (if truthy (p_query params) then ''\<newline>**Query:** '' @ js_str (p_query params) else [])
          @ (if truthy (p_instructions params)
             then ''\<newline>**Instructions:** '' @ js_str (p_instructions params) else []))"

fun files_found :: "found_file list \<Rightarrow> string" where
  "files_found [] = []"
| "files_found (file # rest) =
     ''\<newline>- '' @ js_str (or_opt (ff_name file) (ff_path file))
       @ '' ('' @ or_else (ff_type file) ''file'' @ '')'' @ files_found rest"

fun search_hits :: "search_hit list \<Rightarrow> string" where
  "search_hits [] = []"
| "search_hits (searchResult # rest) =
     (if truthy (sh_file searchResult) \<and> truthy (sh_content searchResult)
      then ''\<newline>\<newline>**File:** '' @ js_str (sh_file searchResult)
             @ ''\<newline>```\<newline>'' @ js_str (sh_content searchResult) @ ''\<newline>```''
      else []) @ search_hits rest"

definition result_text :: "tool_result parsed option \<Rightarrow> string" where
  "result_text f =
     (case f of
        None \<Rightarrow> []
      | Some Unparsable \<Rightarrow> []
      | Some (Parsed resultData) \<Rightarrow>
          (if truthy (r_output resultData)
           then ''\<newline>\<newline>**Output:**\<newline>```\<newline>'' @ js_str (r_output resultData) @ ''\<newline>```'' else [])
          @ (if truthy (r_contents resultData)
             then ''\<newline>\<newline>**File Contents:**\<newline>```\<newline>'' @ js_str (r_contents resultData) @ ''\<newline>```''
             else [])
          @ (case r_exitCodeV2 resultData of
               None \<Rightarrow> []
             | Some shown \<Rightarrow> ''\<newline>\<newline>**Exit Code:** '' @ shown)
          @ (case r_files resultData of
               None \<Rightarrow> []
             | Some files \<Rightarrow> if files \<noteq> [] then ''\<newline>\<newline>**Files Found:**'' @ files_found files else [])
          @ (case r_results resultData of
               None \<Rightarrow> []
             | Some hits \<Rightarrow> if hits \<noteq> [] then ''\<newline>\<newline>**Results:**'' @ search_hits hits else []))"

definition sec_tool :: "string option \<Rightarrow> tool_params parsed option \<Rightarrow> tool_result parsed option \<Rightarrow> string" where
  "sec_tool name ps res =
     (if truthy name
      then ''\<newline>\<newline>**Tool Action:** '' @ js_str name @ params_text ps @ result_text res
      else [])"

definition sec_actions_taken :: "string list option \<Rightarrow> string" where
  "sec_actions_taken f =
     (case f of
        None \<Rightarrow> []
      | Some xs \<Rightarrow> if xs \<noteq> [] then ''\<newline>\<newline>**Actions Taken:** '' @ join '', '' xs else [])"

definition sec_files_modified :: "string list option \<Rightarrow> string" where
  "sec_files_modified f =
     (case f of
        None \<Rightarrow> []
      | Some xs \<Rightarrow>
          if xs \<noteq> [] then ''\<newline>\<newline>**Files Modified:**'' @ concat (map (\<lambda>file. ''\<newline>- '' @ file) xs)
          else [])"

definition sec_git_status :: "string option \<Rightarrow> string" where
  "sec_git_status f =
     (if truthy f then ''\<newline>\<newline>**Git Status:**\<newline>```\<newline>'' @ js_str f @ ''\<newline>```'' else [])"

definition sec_directory_listed :: "string option \<Rightarrow> string" where
  "sec_directory_listed f = (if truthy f then ''\<newline>\<newline>**Directory Listed:** '' @ js_str f else [])"

definition sec_web_search_results :: "web_hit list option \<Rightarrow> string" where
  "sec_web_search_results f =
     (case f of
        None \<Rightarrow> []
      | Some hits \<Rightarrow>
          ''\<newline>\<newline>**Web Search Results:**''
            @ concat (map (\<lambda>searchResult.
                 if truthy (w_title searchResult) then ''\<newline>- '' @ js_str (w_title searchResult) else []) hits))"

text \<open>
  \<^verbatim>\<open>formatToolAction\<close>: \<open>result\<close> starts empty and every step appends to it, as the
  source's \<^verbatim>\<open>result += ...\<close> does. The argument is optional for the source's
  \<^verbatim>\<open>if (!action) return ''\<close>.
\<close>

definition formatToolAction :: "tool_action option \<Rightarrow> string" where
  "formatToolAction action =
     (case action of
        None \<Rightarrow> []
      | Some a \<Rightarrow>
          (let res = [];
               res = res @ sec_code_changes (newModelDiffWrtV0 a);
               res = res @ sec_file (filePath a);
               res = res @ sec_command (command a);
               res = res @ sec_search_results (searchResults a);
               res = res @ sec_web_results (webResults a);
               res = res @ sec_tool (toolName a) (parameters a) (result a);
               res = res @ sec_actions_taken (actionsTaken a);
               res = res @ sec_files_modified (filesModified a);
               res = res @ sec_git_status (gitStatus a);
               res = res @ sec_directory_listed (directoryListed a);
               res = res @ sec_web_search_results (webSearchResults a)
           in res))"

section \<open>Project attribution\<close>

definition home_prefix :: string where
  "home_prefix = ''/Users/evaran/''"

text \<open>
  \<^verbatim>\<open>getProjectFromFilePath\<close>. The tested path loses the home prefix only; a workspace
  folder loses the first \<^verbatim>\<open>file://\<close> and then the home prefix. An entry whose
  \<^verbatim>\<open>workspace.json\<close> cannot be read is skipped by the \<^verbatim>\<open>catch\<close>.
\<close>

definition normalize_folder :: "string \<Rightarrow> string" where
  "normalize_folder f = strip_prefix home_prefix (replace_first ''file://'' [] f)"

fun scan_entries :: "filesystem \<Rightarrow> string \<Rightarrow> workspace_entry list \<Rightarrow> string option" where
  "scan_entries fs normalizedPath [] = None"
| "scan_entries fs normalizedPath (entry # rest) =
     (case read_workspace_json fs (workspaceJsonPath entry) of
        None \<Rightarrow> scan_entries fs normalizedPath rest
      | Some workspaceData \<Rightarrow>
          if truthy (folder workspaceData)
             \<and> startsWith normalizedPath (normalize_folder (js_str (folder workspaceData)))
          then Some (we_name entry)
          else scan_entries fs normalizedPath rest)"

definition getProjectFromFilePath :: "filesystem \<Rightarrow> string \<Rightarrow> workspace_entry list \<Rightarrow> string option" where
  "getProjectFromFilePath fs path workspaceEntries =
     scan_entries fs (strip_prefix home_prefix path) workspaceEntries"

text \<open>
  The loop every file tier runs over its candidate paths:
  \<^verbatim>\<open>const projectId = getProjectFromFilePath(p, workspaceEntries); if (projectId) return projectId\<close>.
\<close>

fun first_project :: "filesystem \<Rightarrow> workspace_entry list \<Rightarrow> string list \<Rightarrow> string option" where
  "first_project fs es [] = None"
| "first_project fs es (p # ps) =
     (let projectId = getProjectFromFilePath fs p es
      in if truthy projectId then projectId else first_project fs es ps)"

text \<open>The candidate paths of each tier, with each loop's own guard.\<close>

definition uri_candidate :: "uri option \<Rightarrow> string option" where
  "uri_candidate u = (case u of None \<Rightarrow> None | Some v \<Rightarrow> if truthy (uri_path v) then uri_path v else None)"

definition created_paths :: "created_file list \<Rightarrow> string list" where
  "created_paths files = List.map_filter (\<lambda>file. uri_candidate (cf_uri file)) files"

definition code_block_paths :: "string list \<Rightarrow> string list" where
  "code_block_paths keys = map (\<lambda>key. replace_first ''file://'' [] key) keys"

definition relevant_paths :: "bubble \<Rightarrow> string list" where
  "relevant_paths b = (case b_relevantFiles b of None \<Rightarrow> [] | Some fs \<Rightarrow> filter (\<lambda>path. path \<noteq> []) fs)"

definition attached_paths :: "bubble \<Rightarrow> string list" where
  "attached_paths b =
     (case b_attachedFileCodeChunksUris b of None \<Rightarrow> [] | Some us \<Rightarrow> List.map_filter uri_candidate us)"

definition selection_paths :: "bubble \<Rightarrow> string list" where
  "selection_paths b =
     (case b_context b of
        None \<Rightarrow> []
      | Some c \<Rightarrow>
          (case fileSelections c of
             None \<Rightarrow> []
           | Some sels \<Rightarrow>
               List.map_filter
                 (\<lambda>fileSelection. case fileSelection of None \<Rightarrow> None | Some s \<Rightarrow> uri_candidate (fs_uri s)) sels))"

text \<open>
  What \<^verbatim>\<open>determineProjectForConversation\<close> gives: \<open>NotIterable\<close> is the \<^verbatim>\<open>TypeError\<close>
  of the first loop when the layout table answers the conversation id with an inherited
  member; \<open>NoProject\<close> is \<^verbatim>\<open>null\<close>; \<open>Project\<close> carries a workspace id;
  \<open>PrototypeMember\<close> is the inherited member of the name table found under a layout hint
  of that name, which is truthy and is returned in place of a workspace id.
\<close>

datatype attribution = NotIterable | NoProject | Project string | PrototypeMember string

text \<open>The four tiers of \<^verbatim>\<open>determineProjectForConversation\<close>.\<close>

fun layout_tier :: "(string \<rightharpoonup> string) \<Rightarrow> string list \<Rightarrow> attribution" where
  "layout_tier projectNameToWorkspaceId [] = NoProject"
| "layout_tier projectNameToWorkspaceId (projectName # rest) =
     (case table_get projectNameToWorkspaceId projectName of
        None \<Rightarrow> layout_tier projectNameToWorkspaceId rest
      | Some (Own workspaceId) \<Rightarrow>
          if workspaceId \<noteq> [] then Project workspaceId else layout_tier projectNameToWorkspaceId rest
      | Some (Inherited name) \<Rightarrow> PrototypeMember name)"

definition created_tier :: "filesystem \<Rightarrow> workspace_entry list \<Rightarrow> composer_data \<Rightarrow> string option" where
  "created_tier fs es composerData =
     (case newlyCreatedFiles composerData of
        None \<Rightarrow> None
      | Some files \<Rightarrow> first_project fs es (created_paths files))"

definition code_block_tier :: "filesystem \<Rightarrow> workspace_entry list \<Rightarrow> composer_data \<Rightarrow> string option" where
  "code_block_tier fs es composerData =
     (case codeBlockData composerData of
        None \<Rightarrow> None
      | Some keys \<Rightarrow> first_project fs es (code_block_paths keys))"

definition bubble_files :: "filesystem \<Rightarrow> workspace_entry list \<Rightarrow> bubble \<Rightarrow> string option" where
  "bubble_files fs es b =
     (case first_project fs es (relevant_paths b) of
        Some projectId \<Rightarrow> Some projectId
      | None \<Rightarrow>
          (case first_project fs es (attached_paths b) of
             Some projectId \<Rightarrow> Some projectId
           | None \<Rightarrow> first_project fs es (selection_paths b)))"

fun bubble_tier :: "filesystem \<Rightarrow> workspace_entry list \<Rightarrow> (string \<rightharpoonup> bubble) \<Rightarrow> header list \<Rightarrow> string option" where
  "bubble_tier fs es bubbleMap [] = None"
| "bubble_tier fs es bubbleMap (hdr # rest) =
     (case lookup_bubble bubbleMap (js_str (h_bubbleId hdr)) of
        None \<Rightarrow> bubble_tier fs es bubbleMap rest
      | Some b \<Rightarrow>
          (case bubble_files fs es b of
             Some projectId \<Rightarrow> Some projectId
           | None \<Rightarrow> bubble_tier fs es bubbleMap rest))"

definition headers_of :: "composer_data \<Rightarrow> header list" where
  "headers_of composerData = (case fullConversationHeadersOnly composerData of None \<Rightarrow> [] | Some hs \<Rightarrow> hs)"

definition determineProjectForConversation ::
  "filesystem \<Rightarrow> composer_data \<Rightarrow> string \<Rightarrow> (string \<rightharpoonup> string list) \<Rightarrow> (string \<rightharpoonup> string)
     \<Rightarrow> workspace_entry list \<Rightarrow> (string \<rightharpoonup> bubble) \<Rightarrow> attribution" where
  "determineProjectForConversation fs composerData composerId projectLayoutsMap projectNameToWorkspaceId
       workspaceEntries bubbleMap =
     (case table_list projectLayoutsMap composerId of
        None \<Rightarrow> NotIterable
      | Some hints \<Rightarrow>
          (case layout_tier projectNameToWorkspaceId hints of
             NoProject \<Rightarrow>
               (case created_tier fs workspaceEntries composerData of
                  Some projectId \<Rightarrow> Project projectId
                | None \<Rightarrow>
                    (case code_block_tier fs workspaceEntries composerData of
                       Some projectId \<Rightarrow> Project projectId
                     | None \<Rightarrow>
                         (case bubble_tier fs workspaceEntries bubbleMap (headers_of composerData) of
                            Some projectId \<Rightarrow> Project projectId
                          | None \<Rightarrow> NoProject)))
           | found \<Rightarrow> found))"

section \<open>Conversation assembly\<close>

text \<open>
  \<^verbatim>\<open>Date.now()\<close>: the \<open>k\<close>-th call of a request returns \<open>clk k\<close>; the number of calls
  made so far is passed along.
\<close>

type_synonym clock = "nat \<Rightarrow> int"

datatype role = User | Ai

record chat_bubble =
  turn_type :: role
  turn_text :: string
  turn_timestamp :: int

record chat_tab =
  tab_id :: string
  tab_title :: string
  tab_timestamp :: "int option"
  tab_bubbles :: "chat_bubble list"
  tab_codeBlockDiffs :: "tool_action list"

text \<open>\<^verbatim>\<open>ts || Date.now()\<close>: the clock is read only when the timestamp is absent or 0.\<close>

definition timestamp_or_now :: "clock \<Rightarrow> nat \<Rightarrow> int option \<Rightarrow> int \<times> nat" where
  "timestamp_or_now clk n ts =
     (case ts of
        None \<Rightarrow> (clk n, Suc n)
      | Some t \<Rightarrow> if t = 0 then (clk n, Suc n) else (t, n))"

subsection \<open>Context sections of one turn\<close>

definition terminal_files_text :: "terminal_file list option \<Rightarrow> string" where
  "terminal_files_text f =
     (case f of
        None \<Rightarrow> []
      | Some files \<Rightarrow>
          if files \<noteq> []
          then ''\<newline>\<newline>**Terminal Files:**'' @ concat (map (\<lambda>file. ''\<newline>- '' @ js_str (tf_path file)) files)
          else [])"

definition folder_text :: "attached_folder \<Rightarrow> string" where
  "folder_text fo =
     (case af_files fo of
        None \<Rightarrow> []
      | Some files \<Rightarrow>
          if files \<noteq> []
          then ''\<newline>\<newline>**Folder:** '' @ or_else (af_path fo) ''Unknown''
                 @ concat (map (\<lambda>file. ''\<newline>- '' @ js_str (fo_name file) @ '' ('' @ js_str (fo_type file) @ '')'') files)
          else [])"

definition attached_folders_text :: "attached_folder list option \<Rightarrow> string" where
  "attached_folders_text f =
     (case f of
        None \<Rightarrow> []
      | Some folders \<Rightarrow>
          if folders \<noteq> [] then ''\<newline>\<newline>**Attached Folders:**'' @ concat (map folder_text folders) else [])"

definition cursor_rules_text :: "cursor_rule list option \<Rightarrow> string" where
  "cursor_rules_text f =
     (case f of
        None \<Rightarrow> []
      | Some rules \<Rightarrow>
          if rules \<noteq> []
          then ''\<newline>\<newline>**Cursor Rules:**''
                 @ concat (map (\<lambda>rule. ''\<newline>- '' @ or_else (cr_name rule) (or_else (cr_description rule) ''Rule'')) rules)
          else [])"

definition summarized_composers_text :: "summarized_composer list option \<Rightarrow> string" where
  "summarized_composers_text f =
     (case f of
        None \<Rightarrow> []
      | Some composers \<Rightarrow>
          if composers \<noteq> []
          then ''\<newline>\<newline>**Related Conversations:**''
                 @ concat (map (\<lambda>composer. ''\<newline>- ''
                      @ or_else (sc_name composer) (or_else (sc_composerId composer) ''Conversation'')) composers)
          else [])"

definition context_text :: "message_context \<Rightarrow> string" where
  "context_text c =
     (if truthy (gitStatusRaw c)
      then ''\<newline>\<newline>**Git Status:**\<newline>```\<newline>'' @ js_str (gitStatusRaw c) @ ''\<newline>```'' else [])
     @ terminal_files_text (terminalFiles c)
     @ attached_folders_text (attachedFoldersListDirResults c)
     @ cursor_rules_text (cursorRules c)
     @ summarized_composers_text (summarizedComposers c)"

text \<open>The loop over the conversation's contexts: those of this bubble id contribute.\<close>

fun contexts_text :: "string option \<Rightarrow> message_context list \<Rightarrow> string" where
  "contexts_text bubbleId [] = []"
| "contexts_text bubbleId (c # cs) =
     (if mc_bubbleId c = bubbleId then context_text c else []) @ contexts_text bubbleId cs"

subsection \<open>Turns from headers and from diffs\<close>

text \<open>
  The merged text of one header whose bubble was found: the extracted text, then the
  context sections. \<open>messageContexts\<close> is what \<^verbatim>\<open>messageRequestContextMap[composerId] || []\<close>
  gives, \<open>None\<close> when it is not iterable. \<open>None\<close> is a \<^verbatim>\<open>TypeError\<close>, thrown by the
  extraction or by the loop over the contexts.
\<close>

definition full_text :: "message_context list option \<Rightarrow> header \<Rightarrow> bubble \<Rightarrow> string option" where
  "full_text messageContexts hdr b =
     (case extractTextFromBubble b of
        None \<Rightarrow> None
      | Some text \<Rightarrow>
          (case messageContexts of
             None \<Rightarrow> None
           | Some contexts \<Rightarrow> Some (text @ contexts_text (h_bubbleId hdr) contexts)))"

text \<open>
  The loop over the headers. The list is \<open>None\<close> when a \<^verbatim>\<open>TypeError\<close> left the loop,
  which the \<^verbatim>\<open>catch\<close> of the composer row receives: the conversation is dropped.
\<close>

fun header_bubbles ::
  "clock \<Rightarrow> (string \<rightharpoonup> bubble) \<Rightarrow> message_context list option \<Rightarrow> header list \<Rightarrow> nat
     \<Rightarrow> chat_bubble list option \<times> nat" where
  "header_bubbles clk bubbleMap messageContexts [] n = (Some [], n)"
| "header_bubbles clk bubbleMap messageContexts (hdr # rest) n =
     (case lookup_bubble bubbleMap (js_str (h_bubbleId hdr)) of
        None \<Rightarrow> header_bubbles clk bubbleMap messageContexts rest n
      | Some b \<Rightarrow>
          (let messageType = (if h_type hdr = Some 1 then User else Ai)
           in case full_text messageContexts hdr b of
                None \<Rightarrow> (None, n)
              | Some fullText \<Rightarrow>
                  if trim fullText \<noteq> []
                  then (let (ts, n1) = timestamp_or_now clk n (b_timestamp b);
                            (others, n2) = header_bubbles clk bubbleMap messageContexts rest n1
                        in (case others of
                              None \<Rightarrow> None
                            | Some bubbles \<Rightarrow>
                                Some (\<lparr>turn_type = messageType, turn_text = fullText, turn_timestamp = ts\<rparr> # bubbles),
                            n2))
                  else header_bubbles clk bubbleMap messageContexts rest n))"

fun diff_bubbles :: "clock \<Rightarrow> tool_action list \<Rightarrow> nat \<Rightarrow> chat_bubble list \<times> nat" where
  "diff_bubbles clk [] n = ([], n)"
| "diff_bubbles clk (diff # rest) n =
     (let diffText = formatToolAction (Some diff)
      in if trim diffText \<noteq> []
         then (let (more, n1) = diff_bubbles clk rest (Suc n)
               in (\<lparr>turn_type = Ai, turn_text = ''**Tool Action:**'' @ diffText, turn_timestamp = clk n\<rparr> # more, n1))
         else diff_bubbles clk rest n)"

subsection \<open>Title, order and the finished conversation\<close>

definition conversation_title :: "string option \<Rightarrow> string \<Rightarrow> chat_bubble list \<Rightarrow> string" where
  "conversation_title name composerId bubbles =
     (let title = or_else name (''Conversation '' @ take 8 composerId)
      in if \<not> truthy name then
           (case bubbles of
              [] \<Rightarrow> title
            | first # _ \<Rightarrow>
                (let firstMessage = turn_text first
                 in if firstMessage \<noteq> [] then
                      (case filter (\<lambda>line. length (trim line) > 0) (split CHR ''\<newline>'' firstMessage) of
                         [] \<Rightarrow> title
                       | firstLine # _ \<Rightarrow>
                           (let title = take 100 firstLine
                            in if length title = 100 then title @ ''...'' else title))
                    else title))
         else title)"

text \<open>
  The comparator's key, \<^verbatim>\<open>(a.timestamp || 0)\<close>. The comparator is the difference of two
  keys and \<^verbatim>\<open>Array.prototype.sort\<close> is stable, so the sort is \<open>sort_key\<close> on this key.
\<close>

definition sort_timestamp :: "chat_bubble \<Rightarrow> int" where
  "sort_timestamp b = (if turn_timestamp b = 0 then 0 else turn_timestamp b)"

text \<open>
  The final \<^verbatim>\<open>bubbles.map\<close>: \<^verbatim>\<open>text || ''\<close> and \<^verbatim>\<open>timestamp || Date.now()\<close>.
\<close>

fun final_bubbles :: "clock \<Rightarrow> chat_bubble list \<Rightarrow> nat \<Rightarrow> chat_bubble list \<times> nat" where
  "final_bubbles clk [] n = ([], n)"
| "final_bubbles clk (b # bs) n =
     (let (ts, n1) = timestamp_or_now clk n (Some (turn_timestamp b));
          (more, n2) = final_bubbles clk bs n1
      in (\<lparr>turn_type = turn_type b, turn_text = turn_text b, turn_timestamp = ts\<rparr> # more, n2))"

text \<open>
  \<^verbatim>\<open>new Date(lastUpdatedAt || createdAt).getTime()\<close>: \<open>None\<close> is NaN, for a missing
  value and outside the range of dates.
\<close>

definition tab_time :: "composer_data \<Rightarrow> int option" where
  "tab_time composerData =
     (let v = (case lastUpdatedAt composerData of
                 None \<Rightarrow> createdAt composerData
               | Some t \<Rightarrow> if t = 0 then createdAt composerData else Some t)
      in case v of
           None \<Rightarrow> None
         | Some t \<Rightarrow> if \<bar>t\<bar> \<le> 8640000000000000 then Some t else None)"

text \<open>
  The body of the composer loop of the tabs handler, once the conversation is known to
  belong to the requested workspace. The result is \<open>None\<close> when nothing is pushed to the
  response: no header gave a turn, or a \<^verbatim>\<open>TypeError\<close> reached the \<^verbatim>\<open>catch\<close> of the row
  (from the header loop, or from the loop over \<^verbatim>\<open>codeBlockDiffMap[composerId] || []\<close>
  when that is not iterable).
\<close>

definition assemble_conversation ::
  "clock \<Rightarrow> composer_data \<Rightarrow> string \<Rightarrow> (string \<rightharpoonup> bubble) \<Rightarrow> (string \<rightharpoonup> tool_action list)
     \<Rightarrow> (string \<rightharpoonup> message_context list) \<Rightarrow> nat \<Rightarrow> chat_tab option \<times> nat" where
  "assemble_conversation clk composerData composerId bubbleMap codeBlockDiffMap messageRequestContextMap n =
     (let conversationHeaders = headers_of composerData;
          messageContexts = table_list messageRequestContextMap composerId
      in case header_bubbles clk bubbleMap messageContexts conversationHeaders n of
           (None, n1) \<Rightarrow> (None, n1)
         | (Some bubbles, n1) \<Rightarrow>
             if length bubbles > 0 then
               (let title = conversation_title (cd_name composerData) composerId bubbles
                in case table_list codeBlockDiffMap composerId of
                     None \<Rightarrow> (None, n1)
                   | Some codeBlockDiffs \<Rightarrow>
                       (let (diffBubbles, n2) = diff_bubbles clk codeBlockDiffs n1;
                            ordered = sort_key sort_timestamp (bubbles @ diffBubbles);
                            (final, n3) = final_bubbles clk ordered n2
                        in (Some \<lparr>tab_id = composerId, tab_title = title, tab_timestamp = tab_time composerData,
                                   tab_bubbles = final, tab_codeBlockDiffs = codeBlockDiffs\<rparr>, n3)))
             else (None, n1))"

section \<open>The request handlers\<close>

subsection \<open>Rows of the global store and the lookup tables built from them\<close>

text \<open>
  A row is its key and its decoded value; the value is \<open>None\<close> when \<^verbatim>\<open>JSON.parse\<close>
  throws (for a bubble also when the value is not an object). \<open>composerRows\<close> is what the
  handler's own query for \<^verbatim>\<open>composerData:%\<close> keys returns, the other three are the
  rows under \<^verbatim>\<open>bubbleId:%\<close>, \<^verbatim>\<open>codeBlockDiff:%\<close> and \<^verbatim>\<open>messageRequestContext:%\<close>.
  The store itself is missing, cannot be opened, or holds rows.
\<close>

record global_store =
  bubbleRows :: "(string \<times> bubble option) list"
  codeBlockDiffRows :: "(string \<times> tool_action option) list"
  messageRequestContextRows :: "(string \<times> message_context option) list"
  composerRows :: "(string \<times> composer_data option) list"

datatype 'a db = Missing | Broken | Db 'a

datatype 'a response = Json 'a | Status404 | Status500

text \<open>\<^verbatim>\<open>key.split(':')[i]\<close>, \<open>None\<close> for \<^verbatim>\<open>undefined\<close>.\<close>

definition key_part :: "string \<Rightarrow> nat \<Rightarrow> string option" where
  "key_part key i = (let parts = split CHR '':'' key in if i < length parts then Some (parts ! i) else None)"

text \<open>The match of \<^verbatim>\<open>/^codeBlockDiff:([^:]+):/\<close>.\<close>

definition extractChatIdFromCodeBlockDiffKey :: "string \<Rightarrow> string option" where
  "extractChatIdFromCodeBlockDiffKey key =
     (if startsWith key ''codeBlockDiff:'' then
        (let rest = drop (length ''codeBlockDiff:'') key;
             chatId = takeWhile (\<lambda>c. c \<noteq> CHR '':'') rest
         in if chatId \<noteq> [] \<and> length chatId < length rest then Some chatId else None)
      else None)"

definition build_bubbleMap :: "(string \<times> bubble option) list \<Rightarrow> (string \<rightharpoonup> bubble)" where
  "build_bubbleMap rows =
     fold (\<lambda>(key, v) m. case v of None \<Rightarrow> m | Some b \<Rightarrow> m(js_str (key_part key 2) \<mapsto> b)) rows Map.empty"

definition build_codeBlockDiffMap :: "(string \<times> tool_action option) list \<Rightarrow> (string \<rightharpoonup> tool_action list)" where
  "build_codeBlockDiffMap rows =
     fold (\<lambda>(key, v) m.
             case extractChatIdFromCodeBlockDiffKey key of
               None \<Rightarrow> m
             | Some chatId \<Rightarrow>
                 (case v of
                    None \<Rightarrow> m
                  | Some codeBlockDiff \<Rightarrow>
                      table_append m chatId [codeBlockDiff\<lparr>diffId := key_part key 2\<rparr>]))
          rows Map.empty"

definition build_messageRequestContextMap ::
  "(string \<times> message_context option) list \<Rightarrow> (string \<rightharpoonup> message_context list)" where
  "build_messageRequestContextMap rows =
     fold (\<lambda>(key, v) m.
             let parts = split CHR '':'' key
             in if length parts \<ge> 3 then
                  (case v of
                     None \<Rightarrow> m
                   | Some c \<Rightarrow> table_append m (parts ! 1) [c])
                else m)
          rows Map.empty"

definition layout_roots :: "layout list \<Rightarrow> string list" where
  "layout_roots ls =
     List.map_filter (\<lambda>l. case l of Layout rootPath \<Rightarrow> if truthy rootPath then rootPath else None | _ \<Rightarrow> None) ls"

definition build_projectLayoutsMap :: "(string \<times> message_context option) list \<Rightarrow> (string \<rightharpoonup> string list)" where
  "build_projectLayoutsMap rows =
     fold (\<lambda>(key, v) m.
             let parts = split CHR '':'' key
             in if length parts \<ge> 2 then
                  (case v of
                     None \<Rightarrow> m
                   | Some c \<Rightarrow>
                       (case projectLayouts c of
                          None \<Rightarrow> m
                        | Some ls \<Rightarrow> table_append m (parts ! 1) (layout_roots ls)))
                else m)
          rows Map.empty"

subsection \<open>Workspace entries\<close>

text \<open>\<^verbatim>\<open>path.join\<close> of a root, a directory name and a file name.\<close>

definition path_join3 :: "string \<Rightarrow> string \<Rightarrow> string \<Rightarrow> string" where
  "path_join3 a b c = a @ ''/'' @ b @ ''/'' @ c"

definition workspace_entries :: "filesystem \<Rightarrow> string \<Rightarrow> dirent list \<Rightarrow> workspace_entry list" where
  "workspace_entries fs workspacePath entries =
     map (\<lambda>entry. \<lparr>we_name = d_name entry,
                    workspaceJsonPath = path_join3 workspacePath (d_name entry) ''workspace.json''\<rparr>)
       (filter (\<lambda>entry. d_isDirectory entry
                  \<and> existsSync fs (path_join3 workspacePath (d_name entry) ''workspace.json'')) entries)"

text \<open>\<^verbatim>\<open>p.split('/').pop() || p.split('\\').pop()\<close>.\<close>

definition folder_name :: "string \<Rightarrow> string" where
  "folder_name p =
     (let a = last (split CHR ''/'' p) in if a \<noteq> [] then a else last (split CHR 0x5C p))"

definition createProjectNameToWorkspaceIdMap :: "filesystem \<Rightarrow> workspace_entry list \<Rightarrow> (string \<rightharpoonup> string)" where
  "createProjectNameToWorkspaceIdMap fs workspaceEntries =
     fold (\<lambda>entry m.
             case read_workspace_json fs (workspaceJsonPath entry) of
               None \<Rightarrow> m
             | Some workspaceData \<Rightarrow>
                 if truthy (folder workspaceData) then
                   (let folderName = folder_name (replace_first ''file://'' [] (js_str (folder workspaceData)))
                    in if folderName \<noteq> [] then table_put_string m folderName (we_name entry) else m)
                 else m)
          workspaceEntries Map.empty"

subsection \<open>Conversations of one workspace\<close>

text \<open>
  The composer loop of the tabs handler. A row whose value does not parse is skipped by
  the \<^verbatim>\<open>catch\<close>, and so is a conversation whose attribution throws; a conversation
  attributed to another project, to an inherited member or to none is skipped by
  \<^verbatim>\<open>if (projectId !== params.id) continue\<close>.
\<close>

fun composer_loop ::
  "clock \<Rightarrow> filesystem \<Rightarrow> string \<Rightarrow> (string \<rightharpoonup> string list) \<Rightarrow> (string \<rightharpoonup> string) \<Rightarrow> workspace_entry list
     \<Rightarrow> (string \<rightharpoonup> bubble) \<Rightarrow> (string \<rightharpoonup> tool_action list) \<Rightarrow> (string \<rightharpoonup> message_context list)
     \<Rightarrow> (string \<times> composer_data option) list \<Rightarrow> nat \<Rightarrow> chat_tab list" where
  "composer_loop clk fs params_id layouts names es bubbleMap diffMap contextMap [] n = []"
| "composer_loop clk fs params_id layouts names es bubbleMap diffMap contextMap ((key, v) # rows) n =
     (case v of
        None \<Rightarrow> composer_loop clk fs params_id layouts names es bubbleMap diffMap contextMap rows n
      | Some composerData \<Rightarrow>
          (let composerId = js_str (key_part key 1);
               projectId = determineProjectForConversation fs composerData composerId layouts names es bubbleMap
           in if projectId \<noteq> Project params_id
              then composer_loop clk fs params_id layouts names es bubbleMap diffMap contextMap rows n
              else (case assemble_conversation clk composerData composerId bubbleMap diffMap contextMap n of
                      (None, n1) \<Rightarrow>
                        composer_loop clk fs params_id layouts names es bubbleMap diffMap contextMap rows n1
                    | (Some tab, n1) \<Rightarrow>
                        tab # composer_loop clk fs params_id layouts names es bubbleMap diffMap contextMap rows n1)))"

definition GET_tabs :: "clock \<Rightarrow> filesystem \<Rightarrow> string \<Rightarrow> global_store db \<Rightarrow> string \<Rightarrow> chat_tab list response" where
  "GET_tabs clk fs workspacePath globalDb params_id =
     (case readdir fs of
        None \<Rightarrow> Status500
      | Some entries \<Rightarrow>
          (let workspaceEntries = workspace_entries fs workspacePath entries;
               projectNameToWorkspaceId = createProjectNameToWorkspaceIdMap fs workspaceEntries
           in case globalDb of
                Missing \<Rightarrow> Status404
              | Broken \<Rightarrow> Status500
              | Db store \<Rightarrow>
                  Json (composer_loop clk fs params_id
                          (build_projectLayoutsMap (messageRequestContextRows store))
                          projectNameToWorkspaceId workspaceEntries
                          (build_bubbleMap (bubbleRows store))
                          (build_codeBlockDiffMap (codeBlockDiffRows store))
                          (build_messageRequestContextMap (messageRequestContextRows store))
                          (composerRows store) 0)))"

subsection \<open>The project list\<close>

record project =
  p_id :: string
  p_name :: string
  p_path :: string
  conversationCount :: "nat option"
  lastModified :: int

text \<open>
  The property key an inherited member of \<^verbatim>\<open>Object.prototype\<close> turns into, and its
  \<^verbatim>\<open>length\<close> property (\<open>None\<close> for \<^verbatim>\<open>undefined\<close>): the members are native functions,
  except the prototype object itself under \<^verbatim>\<open>__proto__\<close>.
\<close>

definition member_text :: "string \<Rightarrow> string" where
  "member_text name =
     (if name = ''__proto__'' then ''[object Object]''
      else ''function '' @ (if name = ''constructor'' then ''Object'' else name) @ ''() { [native code] }'')"

definition member_length :: "string \<Rightarrow> nat option" where
  "member_length name =
     (if name = ''__proto__'' then None
      else if name \<in> set [''__defineGetter__'', ''__defineSetter__''] then Some 2
      else if name \<in> set [''toString'', ''valueOf'', ''toLocaleString''] then Some 0
      else Some 1)"

text \<open>
  The composer loop of the projects handler; of each conversation pushed to
  \<^verbatim>\<open>conversationMap[projectId]\<close> only the composer id is kept, since only the length of
  the list is read afterwards. A conversation without project, or whose attribution
  throws, is skipped.
\<close>

definition count_conversations ::
  "filesystem \<Rightarrow> (string \<rightharpoonup> string) \<Rightarrow> workspace_entry list \<Rightarrow> global_store \<Rightarrow> (string \<rightharpoonup> string list)" where
  "count_conversations fs names es store =
     (let layouts = build_projectLayoutsMap (messageRequestContextRows store);
          bubbleMap = build_bubbleMap (bubbleRows store)
      in fold (\<lambda>(key, v) conversationMap.
                 case v of
                   None \<Rightarrow> conversationMap
                 | Some composerData \<Rightarrow>
                     (let composerId = js_str (key_part key 1)
                      in case determineProjectForConversation fs composerData composerId layouts names es bubbleMap of
                           NotIterable \<Rightarrow> conversationMap
                         | NoProject \<Rightarrow> conversationMap
                         | Project projectId \<Rightarrow> table_append conversationMap projectId [composerId]
                         | PrototypeMember name \<Rightarrow> table_append conversationMap (member_text name) [composerId]))
           (composerRows store) Map.empty)"

definition workspace_name :: "filesystem \<Rightarrow> workspace_entry \<Rightarrow> string" where
  "workspace_name fs entry =
     (let workspaceName = ''Project '' @ take 8 (we_name entry)
      in case read_workspace_json fs (workspaceJsonPath entry) of
           None \<Rightarrow> workspaceName
         | Some workspaceData \<Rightarrow>
             if truthy (folder workspaceData)
             then (let folderName = folder_name (js_str (folder workspaceData))
                   in if folderName \<noteq> [] then folderName else workspaceName)
             else workspaceName)"

text \<open>\<^verbatim>\<open>(conversationMap[name] || []).length\<close>.\<close>

definition conversation_count :: "(string \<rightharpoonup> string list) \<Rightarrow> string \<Rightarrow> nat option" where
  "conversation_count conversationMap name =
     (case table_get conversationMap name of
        None \<Rightarrow> Some 0
      | Some (Own conversations) \<Rightarrow> Some (length conversations)
      | Some (Inherited member) \<Rightarrow> member_length member)"

text \<open>
  The loop that creates the projects: \<^verbatim>\<open>await fs.stat(dbPath)\<close> stands outside every
  inner \<^verbatim>\<open>try\<close>, so when it throws the loop is left and the handler's outer
  \<^verbatim>\<open>catch\<close> answers. \<open>None\<close> is that exit.
\<close>

fun create_projects ::
  "filesystem \<Rightarrow> string \<Rightarrow> (string \<rightharpoonup> string list) \<Rightarrow> workspace_entry list \<Rightarrow> project list option" where
  "create_projects fs workspacePath conversationMap [] = Some []"
| "create_projects fs workspacePath conversationMap (entry # rest) =
     (case stat_mtime fs (path_join3 workspacePath (we_name entry) ''state.vscdb'') of
        None \<Rightarrow> None
      | Some mtime \<Rightarrow>
          (case create_projects fs workspacePath conversationMap rest of
             None \<Rightarrow> None
           | Some projects \<Rightarrow>
               Some (\<lparr>p_id = we_name entry, p_name = workspace_name fs entry, p_path = workspaceJsonPath entry,
                       conversationCount = conversation_count conversationMap (we_name entry),
                       lastModified = mtime\<rparr> # projects)))"

definition GET_projects :: "filesystem \<Rightarrow> string \<Rightarrow> global_store db \<Rightarrow> project list response" where
  "GET_projects fs workspacePath globalDb =
     (case readdir fs of
        None \<Rightarrow> Status500
      | Some entries \<Rightarrow>
          (let workspaceEntries = workspace_entries fs workspacePath entries;
               projectNameToWorkspaceId = createProjectNameToWorkspaceIdMap fs workspaceEntries;
               conversationMap =
                 (case globalDb of
                    Db store \<Rightarrow> count_conversations fs projectNameToWorkspaceId workspaceEntries store
                  | _ \<Rightarrow> Map.empty)
           in case create_projects fs workspacePath conversationMap workspaceEntries of
                None \<Rightarrow> Status500
              | Some projects \<Rightarrow> Json (sort_key (\<lambda>p. - lastModified p) projects)))"

subsection \<open>The workspace list\<close>

record workspace_info =
  w_id :: string
  w_path :: string
  w_folder :: "string option"
  w_lastModified :: int
  chatCount :: nat

text \<open>
  One directory entry of the workspace list handler: \<open>None\<close> when the entry adds
  nothing (not a directory, no \<^verbatim>\<open>state.vscdb\<close>, or an error caught by the entry's own
  \<^verbatim>\<open>try\<close>).
\<close>

definition workspace_of_entry :: "filesystem \<Rightarrow> string \<Rightarrow> dirent \<Rightarrow> workspace_info option" where
  "workspace_of_entry fs workspacePath entry =
     (if d_isDirectory entry then
        (let dbPath = path_join3 workspacePath (d_name entry) ''state.vscdb'';
             workspaceJsonPath = path_join3 workspacePath (d_name entry) ''workspace.json''
         in if \<not> existsSync fs dbPath then None
            else (case stat_mtime fs dbPath of
                    None \<Rightarrow> None
                  | Some mtime \<Rightarrow>
                      (case query_chatdata fs dbPath of
                         None \<Rightarrow> None
                       | Some row \<Rightarrow>
                           Some \<lparr>w_id = d_name entry, w_path = dbPath,
                                 w_folder = (case read_workspace_json fs workspaceJsonPath of
                                               None \<Rightarrow> None
                                             | Some workspaceData \<Rightarrow> folder workspaceData),
                                 w_lastModified = mtime,
                                 chatCount = (case row of ChatData (Some k) \<Rightarrow> k | _ \<Rightarrow> 0)\<rparr>)))
      else None)"

definition GET_workspaces :: "filesystem \<Rightarrow> string \<Rightarrow> workspace_info list response" where
  "GET_workspaces fs workspacePath =
     (case readdir fs of
        None \<Rightarrow> Status500
      | Some entries \<Rightarrow> Json (List.map_filter (workspace_of_entry fs workspacePath) entries))"

section \<open>Notions used in the properties\<close>

text \<open>
  The first line of a text that is not blank after trimming, as it stands: the title
  computation filters the lines by \<^verbatim>\<open>line.trim().length > 0\<close> and takes the first one,
  untrimmed.
\<close>

definition first_nonempty_line :: "string \<Rightarrow> string option" where
  "first_nonempty_line s = find (\<lambda>line. trim line \<noteq> []) (split CHR ''\<newline>'' s)"

text \<open>
  The placeholder title, built from the first 8 characters of the conversation id.
\<close>

definition placeholder_title :: "string \<Rightarrow> string" where
  "placeholder_title composerId = ''Conversation '' @ take 8 composerId"

text \<open>
  The flattened rich text of a bubble, empty when there is no rich text to flatten.
\<close>

definition flattened_rich_text :: "bubble \<Rightarrow> string" where
  "flattened_rich_text b =
     (case b_richText b of
        Some (Parsed (Some children)) \<Rightarrow> extractTextFromRichText children
      | _ \<Rightarrow> [])"

text \<open>
  The base text with the test the code applies: the direct text when it is a string that
  is not blank after trimming, else the flattened rich text.
\<close>

definition base_text :: "bubble \<Rightarrow> string" where
  "base_text b =
     (case b_text b of
        Some (Str t) \<Rightarrow> if trim t \<noteq> [] then t else flattened_rich_text b
      | _ \<Rightarrow> flattened_rich_text b)"

text \<open>
  The fenced sections of the attached code blocks.
\<close>

definition attached_code_blocks :: "bubble \<Rightarrow> string" where
  "attached_code_blocks b =
     (case b_codeBlocks b of
        None \<Rightarrow> []
      | Some blocks \<Rightarrow>
          concat (map (\<lambda>block. case block of None \<Rightarrow> [] | Some codeBlock \<Rightarrow> code_block_text codeBlock) blocks))"

text \<open>
  A valid bubble payload: its text, when present, is a string, and none of its attached
  code blocks is \<^verbatim>\<open>null\<close>.
\<close>

definition valid_bubble :: "bubble \<Rightarrow> bool" where
  "valid_bubble b =
     (b_text b \<noteq> Some NonString
      \<and> (case b_codeBlocks b of None \<Rightarrow> True | Some blocks \<Rightarrow> None \<notin> set blocks))"

section \<open>Readings of the specification\<close>

text \<open>
  Definitions that follow the words of the specification, for comparison with the
  definitions taken from the source.
\<close>

text \<open>
  The display text by the stated precedence: the direct text field if non-empty, else the
  flattened rich text, then the attached code blocks appended.
\<close>

definition spec_base_text :: "bubble \<Rightarrow> string" where
  "spec_base_text b =
     (case b_text b of
        Some (Str t) \<Rightarrow> if t \<noteq> [] then t else flattened_rich_text b
      | _ \<Rightarrow> flattened_rich_text b)"

definition spec_extract :: "bubble \<Rightarrow> string" where
  "spec_extract b = spec_base_text b @ attached_code_blocks b"

text \<open>
  The normalisation rule: strip a \<^verbatim>\<open>file://\<close> prefix if present, then strip the home
  prefix if present.
\<close>

definition normalize_spec :: "string \<Rightarrow> string" where
  "normalize_spec p = strip_prefix home_prefix (strip_prefix ''file://'' p)"

text \<open>
  A path tested against the workspace folders after that normalisation.
\<close>

definition spec_project :: "filesystem \<Rightarrow> string \<Rightarrow> workspace_entry list \<Rightarrow> string option" where
  "spec_project fs p es = scan_entries fs (normalize_spec p) es"

text \<open>
  Layout evidence: the final path segment of a hint's root path is mapped to a project by
  the index from folder names to project ids; the first hint that resolves wins.
\<close>

definition final_segment :: "string \<Rightarrow> string" where
  "final_segment p = last (split CHR ''/'' p)"

definition spec_hint_project :: "(string \<rightharpoonup> string) \<Rightarrow> string \<Rightarrow> string option" where
  "spec_hint_project index rootPath = index (final_segment rootPath)"

fun spec_layout_tier :: "(string \<rightharpoonup> string) \<Rightarrow> string list \<Rightarrow> string option" where
  "spec_layout_tier index [] = None"
| "spec_layout_tier index (rootPath # rest) =
     (case spec_hint_project index rootPath of
        Some projectId \<Rightarrow> Some projectId
      | None \<Rightarrow> spec_layout_tier index rest)"

section \<open>Example data\<close>

text \<open>
  Concrete stores, conversations and directories at which the properties below are
  evaluated.
\<close>

definition ex_clock :: clock where
  "ex_clock k = 1000 + int k"

definition ex_hello :: bubble where
  "ex_hello = \<lparr>b_text = Some (Str ''hello''), b_richText = None, b_codeBlocks = None, b_timestamp = Some 100,
       b_relevantFiles = None, b_attachedFileCodeChunksUris = None, b_context = None\<rparr>"

definition ex_world :: bubble where
  "ex_world = \<lparr>b_text = Some (Str ''world''), b_richText = None, b_codeBlocks = None, b_timestamp = Some 50,
       b_relevantFiles = None, b_attachedFileCodeChunksUris = None, b_context = None\<rparr>"

definition ex_bubble_rows :: "(string \<times> bubble option) list" where
  "ex_bubble_rows = [(''bubbleId:c1:b1'', Some ex_hello), (''bubbleId:c1:b2'', Some ex_world)]"

definition ex_composer :: "string list \<Rightarrow> composer_data" where
  "ex_composer ids = \<lparr>cd_name = None, newlyCreatedFiles = None, codeBlockData = None,
       fullConversationHeadersOnly = Some (map (\<lambda>i. \<lparr>h_bubbleId = Some i, h_type = None\<rparr>) ids),
       lastUpdatedAt = None, createdAt = None\<rparr>"

definition ex_blank :: bubble where
  "ex_blank = \<lparr>b_text = Some (Str ''  ''), b_richText = None, b_codeBlocks = None, b_timestamp = Some 70,
       b_relevantFiles = None, b_attachedFileCodeChunksUris = None, b_context = None\<rparr>"

definition ex_action :: tool_action where
  "ex_action = \<lparr>newModelDiffWrtV0 = None, filePath = Some ''a.ts'', command = Some ''ls'', searchResults = None,
       webResults = None, toolName = None, parameters = None, result = None, actionsTaken = None,
       filesModified = None, gitStatus = None, directoryListed = None, webSearchResults = None,
       diffId = None\<rparr>"

definition ex_no_action :: tool_action where
  "ex_no_action = \<lparr>newModelDiffWrtV0 = None, filePath = None, command = None, searchResults = None,
       webResults = None, toolName = None, parameters = None, result = None, actionsTaken = None,
       filesModified = None, gitStatus = None, directoryListed = None, webSearchResults = None,
       diffId = None\<rparr>"


definition ex_fix :: bubble where
  "ex_fix = \<lparr>b_text = Some (Str ''Fix the bug\<newline>more text, and then more''), b_richText = None, b_codeBlocks = None,
       b_timestamp = Some 100, b_relevantFiles = None, b_attachedFileCodeChunksUris = None, b_context = None\<rparr>"

definition ex_other :: bubble where
  "ex_other = \<lparr>b_text = Some (Str ''other topic''), b_richText = None, b_codeBlocks = None,
       b_timestamp = Some 200, b_relevantFiles = None, b_attachedFileCodeChunksUris = None, b_context = None\<rparr>"

definition ex_rich :: bubble where
  "ex_rich = \<lparr>b_text = Some (Str '' ''),
       b_richText = Some (Parsed (Some
         [RNode (Some ''paragraph'') None (Some [RNode (Some ''text'') (Some ''see '') None]),
          RNode (Some ''code'') None (Some [RNode (Some ''text'') (Some ''x = 1'') None]),
          RNode (Some ''linebreak'') None None])),
       b_codeBlocks = Some [Some \<lparr>cb_language = Some ''ts'', cb_content = Some ''let y''\<rparr>,
                            Some \<lparr>cb_language = None, cb_content = None\<rparr>],
       b_timestamp = None, b_relevantFiles = None, b_attachedFileCodeChunksUris = None, b_context = None\<rparr>"

definition ex_bare :: bubble where
  "ex_bare = \<lparr>b_text = None, b_richText = None, b_codeBlocks = None,
       b_timestamp = None, b_relevantFiles = None, b_attachedFileCodeChunksUris = None, b_context = None\<rparr>"

definition ex_number_text :: bubble where
  "ex_number_text = \<lparr>b_text = Some NonString, b_richText = None, b_codeBlocks = None,
       b_timestamp = None, b_relevantFiles = None, b_attachedFileCodeChunksUris = None, b_context = None\<rparr>"

definition ex_null_block :: bubble where
  "ex_null_block = \<lparr>b_text = Some (Str ''hello''), b_richText = None,
       b_codeBlocks = Some [Some \<lparr>cb_language = None, cb_content = Some ''x''\<rparr>, None],
       b_timestamp = None, b_relevantFiles = None, b_attachedFileCodeChunksUris = None, b_context = None\<rparr>"

definition ex_tool :: tool_action where
  "ex_tool = \<lparr>newModelDiffWrtV0 = Some [\<lparr>modified = Some [''a'', ''b'']\<rparr>, \<lparr>modified = None\<rparr>],
       filePath = Some ''a.ts'', command = None, searchResults = None,
       webResults = None, toolName = Some ''run'',
       parameters = Some (Parsed \<lparr>p_command = Some ''ls'', p_target_file = None, p_query = None,
                                   p_instructions = None\<rparr>),
       result = Some (Parsed \<lparr>r_output = None, r_contents = None, r_exitCodeV2 = Some ''0'',
                               r_files = None, r_results = None\<rparr>),
       actionsTaken = Some [''x'', ''y''],
       filesModified = None, gitStatus = Some ''clean'', directoryListed = None,
       webSearchResults = Some [], diffId = Some ''d1''\<rparr>"

definition ex_fs :: filesystem where
  "ex_fs = \<lparr>readdir = Some [\<lparr>d_name = ''w1'', d_isDirectory = True\<rparr>,
                            \<lparr>d_name = ''w2'', d_isDirectory = True\<rparr>,
                            \<lparr>d_name = ''notes.txt'', d_isDirectory = False\<rparr>,
                            \<lparr>d_name = ''w3'', d_isDirectory = True\<rparr>],
       existsSync = (\<lambda>p. p \<in> set [''/ws/w1/workspace.json'', ''/ws/w1/state.vscdb'', ''/ws/w2/workspace.json'',
                                    ''/ws/w3/workspace.json'', ''/ws/w3/state.vscdb'']),
       read_workspace_json = [''/ws/w1/workspace.json'' \<mapsto> \<lparr>folder = Some ''file:///Users/evaran/alpha''\<rparr>,
                              ''/ws/w2/workspace.json'' \<mapsto> \<lparr>folder = Some ''file:///Users/evaran/beta''\<rparr>,
                              ''/ws/w3/workspace.json'' \<mapsto> \<lparr>folder = Some ''file:///Users/evaran/gamma''\<rparr>],
       stat_mtime = [''/ws/w1/state.vscdb'' \<mapsto> 10, ''/ws/w3/state.vscdb'' \<mapsto> 30],
       query_chatdata = [''/ws/w1/state.vscdb'' \<mapsto> ChatData (Some 2), ''/ws/w3/state.vscdb'' \<mapsto> NoRow]\<rparr>"

definition ex_entries :: "workspace_entry list" where
  "ex_entries = [\<lparr>we_name = ''w1'', workspaceJsonPath = ''/ws/w1/workspace.json''\<rparr>,
                 \<lparr>we_name = ''w2'', workspaceJsonPath = ''/ws/w2/workspace.json''\<rparr>,
                 \<lparr>we_name = ''w3'', workspaceJsonPath = ''/ws/w3/workspace.json''\<rparr>]"

definition ex_names :: "string \<rightharpoonup> string" where
  "ex_names = [''alpha'' \<mapsto> ''w1'', ''beta'' \<mapsto> ''w2'', ''gamma'' \<mapsto> ''w3'']"

definition ex_files_composer :: "string list \<Rightarrow> string list \<Rightarrow> composer_data" where
  "ex_files_composer created keys =
     \<lparr>cd_name = None,
      newlyCreatedFiles = Some (map (\<lambda>p. \<lparr>cf_uri = Some \<lparr>uri_path = Some p\<rparr>\<rparr>) created),
      codeBlockData = Some keys,
      fullConversationHeadersOnly = Some [], lastUpdatedAt = None, createdAt = None\<rparr>"

definition ex_ref_bubble :: "string \<Rightarrow> bubble" where
  "ex_ref_bubble p = \<lparr>b_text = None, b_richText = None, b_codeBlocks = None, b_timestamp = None,
       b_relevantFiles = Some [p],
       b_attachedFileCodeChunksUris = Some [None, Some \<lparr>uri_path = Some p\<rparr>],
       b_context = Some \<lparr>fileSelections = Some [Some \<lparr>fs_uri = Some \<lparr>uri_path = Some p\<rparr>\<rparr>]\<rparr>\<rparr>"

definition ex_context :: message_context where
  "ex_context = \<lparr>mc_bubbleId = Some ''b1'', gitStatusRaw = None, terminalFiles = None,
       attachedFoldersListDirResults = None, cursorRules = None, summarizedComposers = None,
       projectLayouts = Some [NotAString, BadLayout, Layout None, Layout (Some ''alpha'')]\<rparr>"

definition ex_path_context :: message_context where
  "ex_path_context = \<lparr>mc_bubbleId = Some ''b1'', gitStatusRaw = None, terminalFiles = None,
       attachedFoldersListDirResults = None, cursorRules = None, summarizedComposers = None,
       projectLayouts = Some [Layout (Some ''/Users/evaran/alpha'')]\<rparr>"

definition ex_beta_composer :: composer_data where
  "ex_beta_composer = \<lparr>cd_name = None,
       newlyCreatedFiles = Some [\<lparr>cf_uri = Some \<lparr>uri_path = Some ''/Users/evaran/beta/src/x.ts''\<rparr>\<rparr>],
       codeBlockData = None,
       fullConversationHeadersOnly = Some [\<lparr>h_bubbleId = Some ''b1'', h_type = Some 1\<rparr>],
       lastUpdatedAt = Some 7, createdAt = None\<rparr>"

definition ex_path_store :: global_store where
  "ex_path_store = \<lparr>bubbleRows = ex_bubble_rows,
       codeBlockDiffRows = [],
       messageRequestContextRows = [(''messageRequestContext:c1:b1'', Some ex_path_context)],
       composerRows = [(''composerData:c1'', Some ex_beta_composer)]\<rparr>"

definition ex_member_context :: message_context where
  "ex_member_context = \<lparr>mc_bubbleId = Some ''constructor'', gitStatusRaw = Some ''clean'', terminalFiles = None,
       attachedFoldersListDirResults = None, cursorRules = None, summarizedComposers = None,
       projectLayouts = None\<rparr>"

definition ex_store :: global_store where
  "ex_store = \<lparr>bubbleRows = ex_bubble_rows,
       codeBlockDiffRows = [],
       messageRequestContextRows = [(''messageRequestContext:c1:b1'', Some ex_context)],
       composerRows = [(''composerData:c0'', None), (''composerData:c1'', Some (ex_composer [''b2'', ''b1'']))]\<rparr>"

section \<open>Properties\<close>

subsection \<open>Auxiliary facts\<close>

lemma dropWhile_all: "(\<forall>x\<in>set (dropWhile P xs). P x) \<longleftrightarrow> (\<forall>x\<in>set xs. P x)"
  by (induction xs) auto

lemma trim_empty_iff: "trim s = [] \<longleftrightarrow> (\<forall>c\<in>set s. is_space c)"
  by (simp add: trim_def dropWhile_eq_Nil_conv dropWhile_all)

lemma trim_blank: "trim ''  '' = []" "trim [] = []"
  by (simp_all add: trim_def is_space_def)

lemma star_not_space: "\<not> is_space CHR ''*''"
  by (simp add: is_space_def)

lemma tool_action_label_nonblank: "trim (''**Tool Action:**'' @ d) \<noteq> []"
  using star_not_space by (auto simp: trim_empty_iff)

lemma timestamp_or_now_nonzero:
  "\<forall>k. clk k \<noteq> 0 \<Longrightarrow> timestamp_or_now clk n ts = (t, n1) \<Longrightarrow> t \<noteq> 0"
  by (auto simp: timestamp_or_now_def split: option.splits if_splits)

lemma lookup_bubble_own: "bm k = Some b \<Longrightarrow> lookup_bubble bm k = Some b"
  by (simp add: lookup_bubble_def)

lemma lookup_bubble_absent:
  "bm k = None \<Longrightarrow> bm ''__proto__'' = None \<Longrightarrow> k \<notin> set object_prototype_names \<Longrightarrow>
     lookup_bubble bm k = None"
  by (simp add: lookup_bubble_def)

lemma lookup_bubble_inherited:
  "bm k = None \<Longrightarrow> k \<in> set object_prototype_names \<Longrightarrow> lookup_bubble bm k = Some no_fields"
  by (simp add: lookup_bubble_def)

lemma lookup_bubble_field:
  "bm k = None \<Longrightarrow> bm ''__proto__'' = Some p \<Longrightarrow> k \<in> set (truthy_fields p) \<Longrightarrow>
     lookup_bubble bm k = Some no_fields"
  by (simp add: lookup_bubble_def)

lemma table_list_own: "m k = Some xs \<Longrightarrow> table_list m k = Some xs"
  by (simp add: table_list_def table_get_def)

lemma table_list_absent: "m k = None \<Longrightarrow> k \<notin> set object_prototype_names \<Longrightarrow> table_list m k = Some []"
  by (simp add: table_list_def table_get_def)

lemma table_list_inherited: "m k = None \<Longrightarrow> k \<in> set object_prototype_names \<Longrightarrow> table_list m k = None"
  by (simp add: table_list_def table_get_def)

lemma inherited_conversation_id:
  "layouts cid = None \<Longrightarrow> cid \<in> set object_prototype_names \<Longrightarrow>
     determineProjectForConversation fs cd cid layouts names es bm = NotIterable"
  by (simp add: determineProjectForConversation_def table_list_inherited)

lemma c1_not_inherited: "''c1'' \<notin> set object_prototype_names"
  by (simp add: object_prototype_names_def)

lemma header_bubbles_props:
  "header_bubbles clk bm cs hs n = (Some bs, n1) \<Longrightarrow> b \<in> set bs \<Longrightarrow>
     trim (turn_text b) \<noteq> [] \<and> ((\<forall>k. clk k \<noteq> 0) \<longrightarrow> turn_timestamp b \<noteq> 0)"
proof (induction hs arbitrary: n bs n1)
  case Nil
  then show ?case by simp
next
  case (Cons h hs)
  show ?case
  proof (cases "lookup_bubble bm (js_str (h_bubbleId h))")
    case None
    with Cons show ?thesis by simp
  next
    case (Some bb)
    note found = Some
    show ?thesis
    proof (cases "full_text cs h bb")
      case None
      with found Cons.prems(1) show ?thesis by simp
    next
      case (Some fullText)
      note merged = Some
      show ?thesis
      proof (cases "trim fullText = []")
        case True
        with found merged Cons show ?thesis by simp
      next
        case False
        obtain ts m where ts: "timestamp_or_now clk n (b_timestamp bb) = (ts, m)"
          by (cases "timestamp_or_now clk n (b_timestamp bb)")
        obtain others m' where others: "header_bubbles clk bm cs hs m = (others, m')"
          by (cases "header_bubbles clk bm cs hs m")
        from Cons.prems(1) found merged False ts others
        obtain rest where rest: "others = Some rest"
          and bs: "bs = \<lparr>turn_type = (if h_type h = Some 1 then User else Ai),
                       turn_text = fullText, turn_timestamp = ts\<rparr> # rest"
          by (cases others) (auto simp: Let_def)
        show ?thesis
        proof (cases "b \<in> set rest")
          case True
          with Cons.IH[OF others[unfolded rest]] show ?thesis by simp
        next
          case False
          with bs Cons.prems(2)
          have "b = \<lparr>turn_type = (if h_type h = Some 1 then User else Ai),
                       turn_text = fullText, turn_timestamp = ts\<rparr>" by simp
          with \<open>trim fullText \<noteq> []\<close> timestamp_or_now_nonzero[OF _ ts]
          show ?thesis by simp
        qed
      qed
    qed
  qed
qed

lemma diff_bubbles_props:
  "diff_bubbles clk ds n = (bs, n1) \<Longrightarrow> b \<in> set bs \<Longrightarrow>
     trim (turn_text b) \<noteq> [] \<and> ((\<forall>k. clk k \<noteq> 0) \<longrightarrow> turn_timestamp b \<noteq> 0)"
proof (induction ds arbitrary: n bs n1)
  case Nil
  then show ?case by simp
next
  case (Cons d ds)
  show ?case
  proof (cases "trim (formatToolAction (Some d)) = []")
    case True
    with Cons show ?thesis by simp
  next
    case False
    obtain more m' where more: "diff_bubbles clk ds (Suc n) = (more, m')"
      by (cases "diff_bubbles clk ds (Suc n)")
    from Cons.prems(1) False more
    have bs: "bs = \<lparr>turn_type = Ai, turn_text = ''**Tool Action:**'' @ formatToolAction (Some d),
                     turn_timestamp = clk n\<rparr> # more"
      by (simp add: Let_def)
    show ?thesis
    proof (cases "b \<in> set more")
      case True
      with Cons.IH[OF more] show ?thesis by simp
    next
      case False
      with bs Cons.prems(2)
      have "b = \<lparr>turn_type = Ai, turn_text = ''**Tool Action:**'' @ formatToolAction (Some d),
                     turn_timestamp = clk n\<rparr>" by simp
      then show ?thesis using tool_action_label_nonblank by simp
    qed
  qed
qed

lemma final_bubbles_text:
  "final_bubbles clk bs n = (fs, n1) \<Longrightarrow> map turn_text fs = map turn_text bs \<and> map turn_type fs = map turn_type bs"
proof (induction bs arbitrary: n fs n1)
  case Nil
  then show ?case by simp
next
  case (Cons b bs)
  obtain ts m where ts: "timestamp_or_now clk n (Some (turn_timestamp b)) = (ts, m)"
    by (cases "timestamp_or_now clk n (Some (turn_timestamp b))")
  obtain more m' where more: "final_bubbles clk bs m = (more, m')"
    by (cases "final_bubbles clk bs m")
  from Cons.prems ts more have "fs = \<lparr>turn_type = turn_type b, turn_text = turn_text b, turn_timestamp = ts\<rparr> # more"
    by simp
  with Cons.IH[OF more] show ?case by simp
qed

lemma final_bubbles_timestamps:
  "final_bubbles clk bs n = (fs, n1) \<Longrightarrow> \<forall>b\<in>set bs. turn_timestamp b \<noteq> 0 \<Longrightarrow>
     map turn_timestamp fs = map turn_timestamp bs"
proof (induction bs arbitrary: n fs n1)
  case Nil
  then show ?case by simp
next
  case (Cons b bs)
  from Cons.prems(2) have nz: "turn_timestamp b \<noteq> 0" by simp
  then have ts: "timestamp_or_now clk n (Some (turn_timestamp b)) = (turn_timestamp b, n)"
    by (simp add: timestamp_or_now_def)
  obtain more m' where more: "final_bubbles clk bs n = (more, m')"
    by (cases "final_bubbles clk bs n")
  from Cons.prems(1) ts more have "fs = \<lparr>turn_type = turn_type b, turn_text = turn_text b, turn_timestamp = turn_timestamp b\<rparr> # more"
    by simp
  moreover from Cons.IH[OF more] Cons.prems(2) have "map turn_timestamp more = map turn_timestamp bs" by simp
  ultimately show ?case by simp
qed

lemma assemble_Some:
  assumes "assemble_conversation clk cd cid bm dm cm n = (Some tab, n')"
  obtains bubbles n1 diffs diffBubbles n2 final where
    "header_bubbles clk bm (table_list cm cid) (headers_of cd) n = (Some bubbles, n1)"
    "bubbles \<noteq> []"
    "table_list dm cid = Some diffs"
    "diff_bubbles clk diffs n1 = (diffBubbles, n2)"
    "final_bubbles clk (sort_key sort_timestamp (bubbles @ diffBubbles)) n2 = (final, n')"
    "tab = \<lparr>tab_id = cid, tab_title = conversation_title (cd_name cd) cid bubbles,
            tab_timestamp = tab_time cd, tab_bubbles = final, tab_codeBlockDiffs = diffs\<rparr>"
proof -
  obtain r n1 where h0: "header_bubbles clk bm (table_list cm cid) (headers_of cd) n = (r, n1)"
    by (cases "header_bubbles clk bm (table_list cm cid) (headers_of cd) n")
  from assms h0 obtain bubbles where r: "r = Some bubbles"
    by (cases r) (auto simp: assemble_conversation_def Let_def)
  from assms h0 r have ne: "bubbles \<noteq> []"
    by (auto simp: assemble_conversation_def Let_def)
  from assms h0 r ne obtain diffs where t: "table_list dm cid = Some diffs"
    by (cases "table_list dm cid") (auto simp: assemble_conversation_def Let_def)
  obtain diffBubbles n2 where d: "diff_bubbles clk diffs n1 = (diffBubbles, n2)"
    by (cases "diff_bubbles clk diffs n1")
  obtain final n3 where f: "final_bubbles clk (sort_key sort_timestamp (bubbles @ diffBubbles)) n2 = (final, n3)"
    by (cases "final_bubbles clk (sort_key sort_timestamp (bubbles @ diffBubbles)) n2")
  from assms h0 r ne t d f have "n' = n3" and
    "tab = \<lparr>tab_id = cid, tab_title = conversation_title (cd_name cd) cid bubbles,
            tab_timestamp = tab_time cd, tab_bubbles = final, tab_codeBlockDiffs = diffs\<rparr>"
    by (auto simp: assemble_conversation_def Let_def)
  with h0 r ne t d f that show thesis by blast
qed

lemma header_bubbles_no_turn:
  "(\<forall>hdr\<in>set hs. case lookup_bubble bm (js_str (h_bubbleId hdr)) of
        None \<Rightarrow> True
      | Some b \<Rightarrow> (case full_text cs hdr b of None \<Rightarrow> True | Some t \<Rightarrow> trim t = []))
   \<Longrightarrow> header_bubbles clk bm cs hs n = (Some [], n) \<or> header_bubbles clk bm cs hs n = (None, n)"
  by (induction hs arbitrary: n) (auto simp: Let_def split: option.splits)

lemma header_bubbles_some_turn:
  "header_bubbles clk bm cs hs n = (Some bs, n1) \<Longrightarrow> bs \<noteq> [] \<Longrightarrow>
     \<exists>hdr\<in>set hs. \<exists>b t. lookup_bubble bm (js_str (h_bubbleId hdr)) = Some b
        \<and> full_text cs hdr b = Some t \<and> trim t \<noteq> []"
proof (induction hs arbitrary: n)
  case Nil
  then show ?case by simp
next
  case (Cons h hs)
  show ?case
  proof (cases "\<exists>b t. lookup_bubble bm (js_str (h_bubbleId h)) = Some b
        \<and> full_text cs h b = Some t \<and> trim t \<noteq> []")
    case True
    then show ?thesis by auto
  next
    case False
    with Cons.prems(1) have "header_bubbles clk bm cs hs n = (Some bs, n1)"
      by (auto simp: Let_def split: option.splits if_splits)
    from Cons.IH[OF this Cons.prems(2)] show ?thesis by auto
  qed
qed

lemma sort_timestamp_eq: "sort_timestamp = turn_timestamp"
  by (rule ext) (simp add: sort_timestamp_def)

subsection \<open>The example store\<close>

lemma ex_bubbleMap:
  "build_bubbleMap ex_bubble_rows = [''b1'' \<mapsto> ex_hello, ''b2'' \<mapsto> ex_world]"
  by (simp add: build_bubbleMap_def ex_bubble_rows_def key_part_def js_str_def)

lemma ex_replaced_prototype:
  "lookup_bubble (build_bubbleMap [(''bubbleId:c1:__proto__'', Some ex_hello)]) ''__proto__'' = Some ex_hello"
  "lookup_bubble (build_bubbleMap [(''bubbleId:c1:__proto__'', Some ex_hello)]) ''text'' = Some no_fields"
  "lookup_bubble (build_bubbleMap [(''bubbleId:c1:__proto__'', Some ex_hello)]) ''richText'' = None"
  "lookup_bubble (build_bubbleMap [(''bubbleId:c1:__proto__'', Some ex_hello)]) ''valueOf'' = Some no_fields"
  by (simp_all add: build_bubbleMap_def key_part_def js_str_def lookup_bubble_def truthy_fields_def ex_hello_def
        object_prototype_names_def)

lemma trim_hello: "trim ''hello'' = ''hello''" and trim_world: "trim ''world'' = ''world''"
  by (simp_all add: trim_def is_space_def)

lemma ex_text_hello: "extractTextFromBubble ex_hello = Some ''hello''"
  by (simp add: extractTextFromBubble_def direct_text_def rich_text_def ex_hello_def trim_hello)

lemma ex_text_world: "extractTextFromBubble ex_world = Some ''world''"
  by (simp add: extractTextFromBubble_def direct_text_def rich_text_def ex_world_def trim_world)

lemma ex_header_bubbles_b2_b1:
  "header_bubbles clk [''b1'' \<mapsto> ex_hello, ''b2'' \<mapsto> ex_world] (Some [])
      [\<lparr>h_bubbleId = Some ''b2'', h_type = None\<rparr>, \<lparr>h_bubbleId = Some ''b1'', h_type = None\<rparr>] n =
   (Some [\<lparr>turn_type = Ai, turn_text = ''world'', turn_timestamp = 50\<rparr>,
          \<lparr>turn_type = Ai, turn_text = ''hello'', turn_timestamp = 100\<rparr>], n)"
  by (simp add: js_str_def lookup_bubble_own full_text_def ex_text_hello ex_text_world trim_hello trim_world
        timestamp_or_now_def
        ex_hello_def[THEN arg_cong, of b_timestamp] ex_world_def[THEN arg_cong, of b_timestamp])

lemma ex_header_bubbles_b1_b2:
  "header_bubbles clk [''b1'' \<mapsto> ex_hello, ''b2'' \<mapsto> ex_world] (Some [])
      [\<lparr>h_bubbleId = Some ''b1'', h_type = None\<rparr>, \<lparr>h_bubbleId = Some ''b2'', h_type = None\<rparr>] n =
   (Some [\<lparr>turn_type = Ai, turn_text = ''hello'', turn_timestamp = 100\<rparr>,
          \<lparr>turn_type = Ai, turn_text = ''world'', turn_timestamp = 50\<rparr>], n)"
  by (simp add: js_str_def lookup_bubble_own full_text_def ex_text_hello ex_text_world trim_hello trim_world
        timestamp_or_now_def
        ex_hello_def[THEN arg_cong, of b_timestamp] ex_world_def[THEN arg_cong, of b_timestamp])

lemma ex_headers:
  "headers_of (ex_composer ids) = map (\<lambda>i. \<lparr>h_bubbleId = Some i, h_type = None\<rparr>) ids"
  "cd_name (ex_composer ids) = None" "tab_time (ex_composer ids) = None"
  by (simp_all add: headers_of_def ex_composer_def tab_time_def)

lemma ex_no_rows: "table_list Map.empty ''c1'' = Some []"
  by (simp add: table_list_absent c1_not_inherited)

lemma ex_assemble_b2_b1:
  "assemble_conversation clk (ex_composer [''b2'', ''b1'']) ''c1'' (build_bubbleMap ex_bubble_rows) Map.empty Map.empty n =
     (Some \<lparr>tab_id = ''c1'', tab_title = ''world'', tab_timestamp = None,
        tab_bubbles = [\<lparr>turn_type = Ai, turn_text = ''world'', turn_timestamp = 50\<rparr>,
                       \<lparr>turn_type = Ai, turn_text = ''hello'', turn_timestamp = 100\<rparr>],
        tab_codeBlockDiffs = []\<rparr>, n)"
  unfolding assemble_conversation_def ex_bubbleMap ex_headers ex_no_rows
  by (simp add: ex_header_bubbles_b2_b1 conversation_title_def or_else_def truthy_def trim_world
        sort_timestamp_def timestamp_or_now_def del: header_bubbles.simps)

lemma ex_assemble_b1_b2:
  "assemble_conversation clk (ex_composer [''b1'', ''b2'']) ''c1'' (build_bubbleMap ex_bubble_rows) Map.empty Map.empty n =
     (Some \<lparr>tab_id = ''c1'', tab_title = ''hello'', tab_timestamp = None,
        tab_bubbles = [\<lparr>turn_type = Ai, turn_text = ''world'', turn_timestamp = 50\<rparr>,
                       \<lparr>turn_type = Ai, turn_text = ''hello'', turn_timestamp = 100\<rparr>],
        tab_codeBlockDiffs = []\<rparr>, n)"
  unfolding assemble_conversation_def ex_bubbleMap ex_headers ex_no_rows
  by (simp add: ex_header_bubbles_b1_b2 conversation_title_def or_else_def truthy_def trim_hello
        sort_timestamp_def timestamp_or_now_def del: header_bubbles.simps)

subsection \<open>Conversations of a response\<close>

text \<open>
  Every conversation in a response of the tabs handler is what the loop body returned
  for one of the composer rows, so what holds of every assembled conversation holds of
  every conversation of every response.
\<close>

lemma composer_loop_assembled:
  "tab \<in> set (composer_loop clk fs pid layouts names es bm dm cm rows n) \<Longrightarrow>
     \<exists>key cd m m'. (key, Some cd) \<in> set rows
        \<and> determineProjectForConversation fs cd (js_str (key_part key 1)) layouts names es bm = Project pid
        \<and> assemble_conversation clk cd (js_str (key_part key 1)) bm dm cm m = (Some tab, m')"
proof (induction rows arbitrary: n)
  case Nil
  then show ?case by simp
next
  case (Cons row rows)
  obtain key v where row: "row = (key, v)" by (cases row)
  show ?case
  proof (cases v)
    case None
    with Cons row show ?thesis by fastforce
  next
    case (Some cd)
    show ?thesis
    proof (cases "determineProjectForConversation fs cd (js_str (key_part key 1)) layouts names es bm = Project pid")
      case False
      with Cons row Some show ?thesis by fastforce
    next
      case True
      obtain r m' where a: "assemble_conversation clk cd (js_str (key_part key 1)) bm dm cm n = (r, m')"
        by (cases "assemble_conversation clk cd (js_str (key_part key 1)) bm dm cm n")
      show ?thesis
      proof (cases r)
        case None
        with Cons.prems row Some True a
        have "tab \<in> set (composer_loop clk fs pid layouts names es bm dm cm rows m')" by simp
        from Cons.IH[OF this] show ?thesis by fastforce
      next
        case (Some t)
        with Cons.prems row \<open>v = Some cd\<close> True a
        have "tab = t \<or> tab \<in> set (composer_loop clk fs pid layouts names es bm dm cm rows m')" by simp
        then show ?thesis
        proof
          assume "tab = t"
          with a Some True row \<open>v = Some cd\<close> show ?thesis by fastforce
        next
          assume "tab \<in> set (composer_loop clk fs pid layouts names es bm dm cm rows m')"
          from Cons.IH[OF this] show ?thesis by fastforce
        qed
      qed
    qed
  qed
qed

lemma GET_tabs_assembled:
  assumes "GET_tabs clk fs root (Db store) pid = Json tabs" and "tab \<in> set tabs"
  shows "\<exists>key cd m m'. (key, Some cd) \<in> set (composerRows store)
           \<and> assemble_conversation clk cd (js_str (key_part key 1)) (build_bubbleMap (bubbleRows store))
                (build_codeBlockDiffMap (codeBlockDiffRows store))
                (build_messageRequestContextMap (messageRequestContextRows store)) m = (Some tab, m')"
proof (cases "readdir fs")
  case None
  with assms show ?thesis by (simp add: GET_tabs_def)
next
  case (Some entries)
  with assms have "tab \<in> set (composer_loop clk fs pid
                          (build_projectLayoutsMap (messageRequestContextRows store))
                          (createProjectNameToWorkspaceIdMap fs (workspace_entries fs root entries))
                          (workspace_entries fs root entries)
                          (build_bubbleMap (bubbleRows store))
                          (build_codeBlockDiffMap (codeBlockDiffRows store))
                          (build_messageRequestContextMap (messageRequestContextRows store))
                          (composerRows store) 0)"
    by (auto simp: GET_tabs_def Let_def)
  from composer_loop_assembled[OF this] show ?thesis by blast
qed

subsection \<open>Order of turns\<close>

text \<open>
  Claim C1. The turns of an assembled conversation are ordered by timestamp, not by
  header order. With the bubbles b1 (timestamp 100, text hello) and b2 (timestamp 50,
  text world) stored under conversation c1, the header list [b2, b1] gives the turns
  world, hello, and so does the header list [b1, b2]. In general the timestamps of the
  turns of every conversation the loop body returns are non-decreasing, for every clock
  that never reads 0 (\<^verbatim>\<open>timestamp || Date.now()\<close> takes 0 for a missing timestamp,
  in the final map as well).
\<close>

theorem turns_sorted_by_timestamp:
  "(\<forall>clk n. \<exists>tab. assemble_conversation clk (ex_composer [''b2'', ''b1'']) ''c1''
                     (build_bubbleMap ex_bubble_rows) Map.empty Map.empty n = (Some tab, n)
                  \<and> map turn_text (tab_bubbles tab) = [''world'', ''hello''])
   \<and> (\<forall>clk n. \<exists>tab. assemble_conversation clk (ex_composer [''b1'', ''b2'']) ''c1''
                     (build_bubbleMap ex_bubble_rows) Map.empty Map.empty n = (Some tab, n)
                  \<and> map turn_text (tab_bubbles tab) = [''world'', ''hello''])
   \<and> (\<forall>clk cd cid bm dm cm n tab n'.
         (\<forall>k. clk k \<noteq> 0) \<longrightarrow> assemble_conversation clk cd cid bm dm cm n = (Some tab, n')
           \<longrightarrow> sorted (map turn_timestamp (tab_bubbles tab)))"
proof (intro conjI allI impI)
  fix clk :: clock and n :: nat
  show "\<exists>tab. assemble_conversation clk (ex_composer [''b2'', ''b1'']) ''c1''
                     (build_bubbleMap ex_bubble_rows) Map.empty Map.empty n = (Some tab, n)
                  \<and> map turn_text (tab_bubbles tab) = [''world'', ''hello'']"
    by (simp add: ex_assemble_b2_b1)
  show "\<exists>tab. assemble_conversation clk (ex_composer [''b1'', ''b2'']) ''c1''
                     (build_bubbleMap ex_bubble_rows) Map.empty Map.empty n = (Some tab, n)
                  \<and> map turn_text (tab_bubbles tab) = [''world'', ''hello'']"
    by (simp add: ex_assemble_b1_b2)
next
  fix clk :: clock and cd cid bm dm cm n tab n'
  assume clk: "\<forall>k. clk k \<noteq> 0"
    and a: "assemble_conversation clk cd cid bm dm cm n = (Some tab, n')"
  from a obtain bubbles n1 diffs diffBubbles n2 final where
    h: "header_bubbles clk bm (table_list cm cid) (headers_of cd) n = (Some bubbles, n1)" and
    d: "diff_bubbles clk diffs n1 = (diffBubbles, n2)" and
    f: "final_bubbles clk (sort_key sort_timestamp (bubbles @ diffBubbles)) n2 = (final, n')" and
    tab: "tab_bubbles tab = final"
    by (rule assemble_Some) simp
  have "\<forall>b\<in>set (sort_key sort_timestamp (bubbles @ diffBubbles)). turn_timestamp b \<noteq> 0"
    using header_bubbles_props[OF h] diff_bubbles_props[OF d] clk by auto
  from final_bubbles_timestamps[OF f this]
  have "map turn_timestamp final = map turn_timestamp (sort_key turn_timestamp (bubbles @ diffBubbles))"
    by (simp add: sort_timestamp_eq)
  with tab show "sorted (map turn_timestamp (tab_bubbles tab))" by (simp add: sorted_sort_key)
qed

theorem turns_sorted_by_timestamp_witness:
  "(\<forall>k. (\<lambda>k. 1000 + int k) k \<noteq> 0)
   \<and> assemble_conversation (\<lambda>k. 1000 + int k) (ex_composer [''b1'', ''b2'']) ''c1''
        (build_bubbleMap ex_bubble_rows) Map.empty Map.empty 0 =
       (Some \<lparr>tab_id = ''c1'', tab_title = ''hello'', tab_timestamp = None,
          tab_bubbles = [\<lparr>turn_type = Ai, turn_text = ''world'', turn_timestamp = 50\<rparr>,
                         \<lparr>turn_type = Ai, turn_text = ''hello'', turn_timestamp = 100\<rparr>],
          tab_codeBlockDiffs = []\<rparr>, 0)
   \<and> sorted (map turn_timestamp
        [\<lparr>turn_type = Ai, turn_text = ''world'', turn_timestamp = 50\<rparr>,
         \<lparr>turn_type = Ai, turn_text = ''hello'', turn_timestamp = 100\<rparr>])"
proof -
  have c: "\<forall>k. (\<lambda>k. 1000 + int k) k \<noteq> 0" by simp
  note a = ex_assemble_b1_b2[of "\<lambda>k. 1000 + int k" 0]
  have c': "1000 + int k \<noteq> 0" for k by simp
  note g = turns_sorted_by_timestamp[THEN conjunct2, THEN conjunct2, rule_format]
  from g[of "\<lambda>k. 1000 + int k", OF c' a]
  have "sorted (map turn_timestamp (tab_bubbles \<lparr>tab_id = ''c1'', tab_title = ''hello'', tab_timestamp = None,
          tab_bubbles = [\<lparr>turn_type = Ai, turn_text = ''world'', turn_timestamp = 50\<rparr>,
                         \<lparr>turn_type = Ai, turn_text = ''hello'', turn_timestamp = 100\<rparr>],
          tab_codeBlockDiffs = []\<rparr>))" .
  with c a show ?thesis by simp
qed

subsection \<open>Empty turns\<close>

text \<open>
  Claim C5. No turn of an assembled conversation has a text that is empty after
  trimming: a header turn is pushed only when its base text with all appended context
  sections trims to something, a diff turn starts with its fixed label, and neither the
  sort nor the final map changes a text.
\<close>

theorem empty_turns_excluded:
  assumes "assemble_conversation clk cd cid bm dm cm n = (Some tab, n')"
    and "t \<in> set (tab_bubbles tab)"
  shows "trim (turn_text t) \<noteq> []"
proof -
  from assms(1) obtain bubbles n1 diffs diffBubbles n2 final where
    h: "header_bubbles clk bm (table_list cm cid) (headers_of cd) n = (Some bubbles, n1)" and
    d: "diff_bubbles clk diffs n1 = (diffBubbles, n2)" and
    f: "final_bubbles clk (sort_key sort_timestamp (bubbles @ diffBubbles)) n2 = (final, n')" and
    tab: "tab_bubbles tab = final"
    by (rule assemble_Some) simp
  from assms(2) tab have "turn_text t \<in> set (map turn_text final)" by simp
  also from final_bubbles_text[OF f]
  have "map turn_text final = map turn_text (sort_key sort_timestamp (bubbles @ diffBubbles))" by simp
  finally obtain b where b: "b \<in> set bubbles \<union> set diffBubbles" and eq: "turn_text t = turn_text b"
    by auto
  from b header_bubbles_props[OF h] diff_bubbles_props[OF d] have "trim (turn_text b) \<noteq> []" by blast
  with eq show ?thesis by simp
qed

lemma ex_text_blank: "extractTextFromBubble ex_blank = Some []"
  by (simp add: extractTextFromBubble_def direct_text_def rich_text_def ex_blank_def trim_blank)

lemma ex_format_action: "formatToolAction (Some ex_action) = ''\<newline>\<newline>**File:** a.ts\<newline>\<newline>**Command:** `ls`''"
  by (simp add: formatToolAction_def ex_action_def sec_code_changes_def sec_file_def sec_command_def
        sec_search_results_def sec_web_results_def sec_tool_def sec_actions_taken_def sec_files_modified_def
        sec_git_status_def sec_directory_listed_def sec_web_search_results_def truthy_def js_str_def)

lemma trim_ex_format_action: "trim (formatToolAction (Some ex_action)) \<noteq> []"
  by (simp add: ex_format_action trim_empty_iff is_space_def)

lemma ex_format_no_action: "formatToolAction (Some ex_no_action) = []"
  by (simp add: formatToolAction_def ex_no_action_def sec_code_changes_def sec_file_def sec_command_def
        sec_search_results_def sec_web_results_def sec_tool_def sec_actions_taken_def sec_files_modified_def
        sec_git_status_def sec_directory_listed_def sec_web_search_results_def truthy_def js_str_def)

lemma ex_diff_bubbles:
  "diff_bubbles clk [ex_no_action, ex_action] n =
     ([\<lparr>turn_type = Ai, turn_text = ''**Tool Action:**\<newline>\<newline>**File:** a.ts\<newline>\<newline>**Command:** `ls`'',
        turn_timestamp = clk n\<rparr>], Suc n)"
  using trim_ex_format_action by (simp add: ex_format_no_action trim_blank ex_format_action)

lemma ex_assemble_blank:
  "assemble_conversation (\<lambda>k. 1000 + int k) (ex_composer [''b3'', ''b1'']) ''c1''
       [''b1'' \<mapsto> ex_hello, ''b3'' \<mapsto> ex_blank] [''c1'' \<mapsto> [ex_no_action, ex_action]] Map.empty 0 =
     (Some \<lparr>tab_id = ''c1'', tab_title = ''hello'', tab_timestamp = None,
        tab_bubbles = [\<lparr>turn_type = Ai, turn_text = ''hello'', turn_timestamp = 100\<rparr>,
                       \<lparr>turn_type = Ai, turn_text = ''**Tool Action:**\<newline>\<newline>**File:** a.ts\<newline>\<newline>**Command:** `ls`'',
                          turn_timestamp = 1000\<rparr>],
        tab_codeBlockDiffs = [ex_no_action, ex_action]\<rparr>, 1)"
proof -
  have h: "header_bubbles (\<lambda>k. 1000 + int k) [''b1'' \<mapsto> ex_hello, ''b3'' \<mapsto> ex_blank] (Some [])
      [\<lparr>h_bubbleId = Some ''b3'', h_type = None\<rparr>, \<lparr>h_bubbleId = Some ''b1'', h_type = None\<rparr>] 0 =
     (Some [\<lparr>turn_type = Ai, turn_text = ''hello'', turn_timestamp = 100\<rparr>], 0)"
    by (simp add: js_str_def lookup_bubble_own full_text_def ex_text_hello ex_text_blank trim_hello trim_blank
        timestamp_or_now_def ex_hello_def[THEN arg_cong, of b_timestamp])
  have d: "table_list [''c1'' \<mapsto> [ex_no_action, ex_action]] ''c1'' = Some [ex_no_action, ex_action]"
    by (simp add: table_list_own)
  show ?thesis
    unfolding assemble_conversation_def ex_headers ex_no_rows d
    by (simp add: h ex_diff_bubbles conversation_title_def or_else_def truthy_def trim_hello
        sort_timestamp_def timestamp_or_now_def del: header_bubbles.simps diff_bubbles.simps)
qed

theorem empty_turns_excluded_witness:
  "assemble_conversation (\<lambda>k. 1000 + int k) (ex_composer [''b3'', ''b1'']) ''c1''
       [''b1'' \<mapsto> ex_hello, ''b3'' \<mapsto> ex_blank] [''c1'' \<mapsto> [ex_no_action, ex_action]] Map.empty 0 =
     (Some \<lparr>tab_id = ''c1'', tab_title = ''hello'', tab_timestamp = None,
        tab_bubbles = [\<lparr>turn_type = Ai, turn_text = ''hello'', turn_timestamp = 100\<rparr>,
                       \<lparr>turn_type = Ai, turn_text = ''**Tool Action:**\<newline>\<newline>**File:** a.ts\<newline>\<newline>**Command:** `ls`'',
                          turn_timestamp = 1000\<rparr>],
        tab_codeBlockDiffs = [ex_no_action, ex_action]\<rparr>, 1)
   \<and> trim (turn_text \<lparr>turn_type = Ai, turn_text = ''hello'', turn_timestamp = 100\<rparr>) \<noteq> []
   \<and> trim (turn_text \<lparr>turn_type = Ai, turn_text = ''**Tool Action:**\<newline>\<newline>**File:** a.ts\<newline>\<newline>**Command:** `ls`'',
                          turn_timestamp = 1000\<rparr>) \<noteq> []"
proof (intro conjI)
  note a = ex_assemble_blank
  show "assemble_conversation (\<lambda>k. 1000 + int k) (ex_composer [''b3'', ''b1'']) ''c1''
       [''b1'' \<mapsto> ex_hello, ''b3'' \<mapsto> ex_blank] [''c1'' \<mapsto> [ex_no_action, ex_action]] Map.empty 0 =
     (Some \<lparr>tab_id = ''c1'', tab_title = ''hello'', tab_timestamp = None,
        tab_bubbles = [\<lparr>turn_type = Ai, turn_text = ''hello'', turn_timestamp = 100\<rparr>,
                       \<lparr>turn_type = Ai, turn_text = ''**Tool Action:**\<newline>\<newline>**File:** a.ts\<newline>\<newline>**Command:** `ls`'',
                          turn_timestamp = 1000\<rparr>],
        tab_codeBlockDiffs = [ex_no_action, ex_action]\<rparr>, 1)"
    by (rule a)
  show "trim (turn_text \<lparr>turn_type = Ai, turn_text = ''hello'', turn_timestamp = 100\<rparr>) \<noteq> []"
    by (rule empty_turns_excluded[OF a]) simp
  show "trim (turn_text \<lparr>turn_type = Ai, turn_text = ''**Tool Action:**\<newline>\<newline>**File:** a.ts\<newline>\<newline>**Command:** `ls`'',
                          turn_timestamp = 1000\<rparr>) \<noteq> []"
    by (rule empty_turns_excluded[OF a]) simp
qed

subsection \<open>Conversations without text\<close>

lemma ex_member_text:
  "full_text (Some [ex_member_context]) \<lparr>h_bubbleId = Some ''constructor'', h_type = None\<rparr> no_fields
     = Some ''\<newline>\<newline>**Git Status:**\<newline>```\<newline>clean\<newline>```''"
  by (simp add: full_text_def extractTextFromBubble_def direct_text_def rich_text_def no_fields_def
        context_text_def ex_member_context_def truthy_def js_str_def terminal_files_text_def
        attached_folders_text_def cursor_rules_text_def summarized_composers_text_def)

lemma trim_member_text: "trim ''\<newline>\<newline>**Git Status:**\<newline>```\<newline>clean\<newline>```'' \<noteq> []"
  by (simp add: trim_empty_iff is_space_def)

lemma ex_member_title:
  "conversation_title None ''c1''
     [\<lparr>turn_type = Ai, turn_text = ''\<newline>\<newline>**Git Status:**\<newline>```\<newline>clean\<newline>```'', turn_timestamp = 1000\<rparr>]
     = ''**Git Status:**''"
  by (simp add: conversation_title_def or_else_def truthy_def trim_blank trim_empty_iff is_space_def)

lemma ex_assemble_member:
  "assemble_conversation (\<lambda>k. 1000 + int k) (ex_composer [''constructor'']) ''c1'' Map.empty Map.empty
       [''c1'' \<mapsto> [ex_member_context]] 0 =
     (Some \<lparr>tab_id = ''c1'', tab_title = ''**Git Status:**'', tab_timestamp = None,
        tab_bubbles = [\<lparr>turn_type = Ai, turn_text = ''\<newline>\<newline>**Git Status:**\<newline>```\<newline>clean\<newline>```'',
                          turn_timestamp = 1000\<rparr>],
        tab_codeBlockDiffs = []\<rparr>, 1)"
proof -
  have l: "lookup_bubble Map.empty ''constructor'' = Some no_fields"
    by (simp add: lookup_bubble_inherited object_prototype_names_def)
  have c: "table_list [''c1'' \<mapsto> [ex_member_context]] ''c1'' = Some [ex_member_context]"
    by (simp add: table_list_own)
  have h: "header_bubbles (\<lambda>k. 1000 + int k) Map.empty (Some [ex_member_context])
      [\<lparr>h_bubbleId = Some ''constructor'', h_type = None\<rparr>] 0 =
     (Some [\<lparr>turn_type = Ai, turn_text = ''\<newline>\<newline>**Git Status:**\<newline>```\<newline>clean\<newline>```'',
               turn_timestamp = 1000\<rparr>], 1)"
    using trim_member_text
    by (simp add: js_str_def l ex_member_text timestamp_or_now_def no_fields_def[THEN arg_cong, of b_timestamp])
  show ?thesis
    unfolding assemble_conversation_def ex_headers ex_no_rows c
    by (simp add: h ex_member_title sort_timestamp_def timestamp_or_now_def del: header_bubbles.simps)
qed

text \<open>
  Claim C10. A header is an orphan when \<^verbatim>\<open>bubbleMap[bubbleId]\<close> is falsy: no bubble is
  stored under its id and the table inherits nothing truthy under that name, neither from
  \<^verbatim>\<open>Object.prototype\<close> nor from a bubble that became its prototype. When every header of a conversation is an orphan, or yields a
  merged text that is empty after trimming, or throws, the loop body returns no
  conversation and never reaches the diff events (the clock is not read), whatever diff
  events the conversation has. Conversely a returned conversation has a header whose
  lookup is truthy and whose merged text is not blank.
\<close>

theorem no_text_turn_no_conversation:
  "((\<forall>hdr\<in>set (headers_of cd).
        case lookup_bubble bm (js_str (h_bubbleId hdr)) of
          None \<Rightarrow> True
        | Some b \<Rightarrow> (case full_text (table_list cm cid) hdr b of None \<Rightarrow> True | Some t \<Rightarrow> trim t = []))
      \<longrightarrow> assemble_conversation clk cd cid bm dm cm n = (None, n))
   \<and> (\<forall>tab n'. assemble_conversation clk cd cid bm dm cm n = (Some tab, n')
        \<longrightarrow> (\<exists>hdr\<in>set (headers_of cd). \<exists>b t. lookup_bubble bm (js_str (h_bubbleId hdr)) = Some b
               \<and> full_text (table_list cm cid) hdr b = Some t \<and> trim t \<noteq> []))"
proof (intro conjI allI impI)
  assume "\<forall>hdr\<in>set (headers_of cd).
        case lookup_bubble bm (js_str (h_bubbleId hdr)) of
          None \<Rightarrow> True
        | Some b \<Rightarrow> (case full_text (table_list cm cid) hdr b of None \<Rightarrow> True | Some t \<Rightarrow> trim t = [])"
  from header_bubbles_no_turn[OF this]
  have "header_bubbles clk bm (table_list cm cid) (headers_of cd) n = (Some [], n)
      \<or> header_bubbles clk bm (table_list cm cid) (headers_of cd) n = (None, n)" .
  then show "assemble_conversation clk cd cid bm dm cm n = (None, n)"
    by (auto simp: assemble_conversation_def)
next
  fix tab n'
  assume "assemble_conversation clk cd cid bm dm cm n = (Some tab, n')"
  then obtain bubbles n1 where
    "header_bubbles clk bm (table_list cm cid) (headers_of cd) n = (Some bubbles, n1)" "bubbles \<noteq> []"
    by (rule assemble_Some)
  then show "\<exists>hdr\<in>set (headers_of cd). \<exists>b t. lookup_bubble bm (js_str (h_bubbleId hdr)) = Some b
               \<and> full_text (table_list cm cid) hdr b = Some t \<and> trim t \<noteq> []"
    by (rule header_bubbles_some_turn)
qed

theorem no_text_turn_no_conversation_witness:
  "lookup_bubble [''b3'' \<mapsto> ex_blank] ''b3'' = Some ex_blank
   \<and> full_text (table_list Map.empty ''c1'') \<lparr>h_bubbleId = Some ''b3'', h_type = None\<rparr> ex_blank = Some []
   \<and> lookup_bubble [''b3'' \<mapsto> ex_blank] ''b9'' = None
   \<and> trim (formatToolAction (Some ex_action)) \<noteq> []
   \<and> assemble_conversation (\<lambda>k. 1000 + int k) (ex_composer [''b3'', ''b9'']) ''c1'' [''b3'' \<mapsto> ex_blank]
        [''c1'' \<mapsto> [ex_action]] Map.empty 5 = (None, 5)
   \<and> lookup_bubble Map.empty ''constructor'' = Some no_fields
   \<and> assemble_conversation (\<lambda>k. 1000 + int k) (ex_composer [''constructor'']) ''c1'' Map.empty Map.empty
        [''c1'' \<mapsto> [ex_member_context]] 0 =
       (Some \<lparr>tab_id = ''c1'', tab_title = ''**Git Status:**'', tab_timestamp = None,
          tab_bubbles = [\<lparr>turn_type = Ai, turn_text = ''\<newline>\<newline>**Git Status:**\<newline>```\<newline>clean\<newline>```'',
                            turn_timestamp = 1000\<rparr>],
          tab_codeBlockDiffs = []\<rparr>, 1)"
proof -
  have l3: "lookup_bubble [''b3'' \<mapsto> ex_blank] ''b3'' = Some ex_blank"
    by (simp add: lookup_bubble_own)
  have l9: "lookup_bubble [''b3'' \<mapsto> ex_blank] ''b9'' = None"
    by (simp add: lookup_bubble_absent object_prototype_names_def)
  have t: "full_text (table_list Map.empty ''c1'') \<lparr>h_bubbleId = Some ''b3'', h_type = None\<rparr> ex_blank = Some []"
    by (simp add: full_text_def ex_text_blank ex_no_rows)
  have "\<forall>hdr\<in>set (headers_of (ex_composer [''b3'', ''b9''])).
        case lookup_bubble [''b3'' \<mapsto> ex_blank] (js_str (h_bubbleId hdr)) of
          None \<Rightarrow> True
        | Some b \<Rightarrow> (case full_text (table_list Map.empty ''c1'') hdr b of None \<Rightarrow> True | Some t \<Rightarrow> trim t = [])"
    using t l3 l9 by (simp add: ex_headers js_str_def trim_blank)
  with no_text_turn_no_conversation[where cd = "ex_composer [''b3'', ''b9'']" and bm = "[''b3'' \<mapsto> ex_blank]"
      and cm = Map.empty and cid = "''c1''" and clk = "\<lambda>k. 1000 + int k" and dm = "[''c1'' \<mapsto> [ex_action]]" and n = 5]
  have a: "assemble_conversation (\<lambda>k. 1000 + int k) (ex_composer [''b3'', ''b9'']) ''c1'' [''b3'' \<mapsto> ex_blank]
        [''c1'' \<mapsto> [ex_action]] Map.empty 5 = (None, 5)" by blast
  have m: "lookup_bubble Map.empty ''constructor'' = Some no_fields"
    by (simp add: lookup_bubble_inherited object_prototype_names_def)
  from l3 t l9 trim_ex_format_action a m ex_assemble_member show ?thesis by simp
qed

subsection \<open>Titles\<close>

lemma find_filter_hd: "find P xs = (case filter P xs of [] \<Rightarrow> None | x # _ \<Rightarrow> Some x)"
  by (induction xs) auto

lemma split_nonempty: "split c s \<noteq> []"
  by (cases s) (auto split: list.splits)

lemma concat_split: "concat (split c s) = filter (\<lambda>x. x \<noteq> c) s"
proof (induction s)
  case Nil
  then show ?case by simp
next
  case (Cons x xs)
  then show ?case using split_nonempty[of c xs] by (auto split: list.splits)
qed

lemma nonblank_has_line:
  assumes "trim s \<noteq> []"
  shows "first_nonempty_line s \<noteq> None"
proof -
  from assms obtain ch where ch: "ch \<in> set s" "\<not> is_space ch" by (auto simp: trim_empty_iff)
  then have "ch \<noteq> CHR ''\<newline>''" by (auto simp: is_space_def)
  with ch have "ch \<in> set (concat (split CHR ''\<newline>'' s))" by (simp add: concat_split)
  then obtain line where "line \<in> set (split CHR ''\<newline>'' s)" "ch \<in> set line" by auto
  with ch(2) have "\<exists>line\<in>set (split CHR ''\<newline>'' s). trim line \<noteq> []"
    by (auto simp: trim_empty_iff)
  then show ?thesis by (auto simp: first_nonempty_line_def find_None_iff)
qed

lemma conversation_title_cases:
  "conversation_title name cid bubbles =
     (if truthy name then js_str name
      else case bubbles of
             [] \<Rightarrow> placeholder_title cid
           | first # _ \<Rightarrow>
               (case first_nonempty_line (turn_text first) of
                  None \<Rightarrow> placeholder_title cid
                | Some line \<Rightarrow> if length line < 100 then line else take 100 line @ ''...''))"
  by (auto simp: conversation_title_def first_nonempty_line_def find_filter_hd placeholder_title_def
        or_else_def truthy_def js_str_def Let_def trim_blank split: option.splits list.splits)

lemma first_line_example:
  "first_nonempty_line (''Fix the bug\<newline>more text'' @ rest) = Some ''Fix the bug''"
proof -
  have "split CHR ''\<newline>'' (''Fix the bug\<newline>more text'' @ rest) = ''Fix the bug'' # split CHR ''\<newline>'' (''more text'' @ rest)"
    by simp
  moreover have "trim ''Fix the bug'' \<noteq> []" by (simp add: trim_empty_iff is_space_def)
  ultimately show ?thesis by (simp add: first_nonempty_line_def)
qed



lemma insort_key_least: "\<forall>y\<in>set ys. f x \<le> f y \<Longrightarrow> insort_key f x ys = x # ys"
  by (cases ys) auto

lemma sort_key_least: "\<forall>y\<in>set xs. f x \<le> f y \<Longrightarrow> sort_key f (x # xs) = x # sort_key f xs"
  by (simp add: insort_key_least)

lemma trim_fix: "trim ''Fix the bug\<newline>more text, and then more'' \<noteq> []"
  by (simp add: trim_empty_iff is_space_def)

lemma trim_other: "trim ''other topic'' \<noteq> []"
  by (simp add: trim_empty_iff is_space_def)

lemma ex_text_fix: "extractTextFromBubble ex_fix = Some ''Fix the bug\<newline>more text, and then more''"
  using trim_fix by (simp add: extractTextFromBubble_def direct_text_def rich_text_def ex_fix_def)

lemma ex_text_other: "extractTextFromBubble ex_other = Some ''other topic''"
  using trim_other by (simp add: extractTextFromBubble_def direct_text_def rich_text_def ex_other_def)

lemma ex_title_fix:
  "conversation_title None ''c1''
      (\<lparr>turn_type = Ai, turn_text = ''Fix the bug\<newline>more text, and then more'', turn_timestamp = 100\<rparr> # others)
      = ''Fix the bug''"
  using first_line_example[of "'', and then more''"] by (simp add: conversation_title_cases truthy_def)

lemma ex_title_other:
  "conversation_title None ''c1''
      (\<lparr>turn_type = Ai, turn_text = ''other topic'', turn_timestamp = 200\<rparr> # others) = ''other topic''"
  using trim_other by (simp add: conversation_title_cases truthy_def first_nonempty_line_def)

lemma ex_header_bubbles_b4_b9:
  "header_bubbles clk [''b4'' \<mapsto> ex_fix, ''b9'' \<mapsto> ex_other] (Some [])
      [\<lparr>h_bubbleId = Some ''b4'', h_type = None\<rparr>, \<lparr>h_bubbleId = Some ''b9'', h_type = None\<rparr>] n =
   (Some [\<lparr>turn_type = Ai, turn_text = ''Fix the bug\<newline>more text, and then more'', turn_timestamp = 100\<rparr>,
          \<lparr>turn_type = Ai, turn_text = ''other topic'', turn_timestamp = 200\<rparr>], n)"
  using trim_fix trim_other
  by (simp add: js_str_def lookup_bubble_own full_text_def ex_text_fix ex_text_other timestamp_or_now_def
        ex_fix_def[THEN arg_cong, of b_timestamp] ex_other_def[THEN arg_cong, of b_timestamp])

lemma ex_header_bubbles_b9_b4:
  "header_bubbles clk [''b4'' \<mapsto> ex_fix, ''b9'' \<mapsto> ex_other] (Some [])
      [\<lparr>h_bubbleId = Some ''b9'', h_type = None\<rparr>, \<lparr>h_bubbleId = Some ''b4'', h_type = None\<rparr>] n =
   (Some [\<lparr>turn_type = Ai, turn_text = ''other topic'', turn_timestamp = 200\<rparr>,
          \<lparr>turn_type = Ai, turn_text = ''Fix the bug\<newline>more text, and then more'', turn_timestamp = 100\<rparr>], n)"
  using trim_fix trim_other
  by (simp add: js_str_def lookup_bubble_own full_text_def ex_text_fix ex_text_other timestamp_or_now_def
        ex_fix_def[THEN arg_cong, of b_timestamp] ex_other_def[THEN arg_cong, of b_timestamp])

lemma ex_assemble_b4_b9:
  "assemble_conversation clk (ex_composer [''b4'', ''b9'']) ''c1'' [''b4'' \<mapsto> ex_fix, ''b9'' \<mapsto> ex_other]
       Map.empty Map.empty n =
     (Some \<lparr>tab_id = ''c1'', tab_title = ''Fix the bug'', tab_timestamp = None,
        tab_bubbles = [\<lparr>turn_type = Ai, turn_text = ''Fix the bug\<newline>more text, and then more'', turn_timestamp = 100\<rparr>,
                       \<lparr>turn_type = Ai, turn_text = ''other topic'', turn_timestamp = 200\<rparr>],
        tab_codeBlockDiffs = []\<rparr>, n)"
  unfolding assemble_conversation_def ex_headers ex_no_rows
  by (simp add: ex_header_bubbles_b4_b9 ex_title_fix sort_timestamp_def timestamp_or_now_def
        del: header_bubbles.simps)

lemma ex_assemble_b9_b4:
  "assemble_conversation clk (ex_composer [''b9'', ''b4'']) ''c1'' [''b4'' \<mapsto> ex_fix, ''b9'' \<mapsto> ex_other]
       Map.empty Map.empty n =
     (Some \<lparr>tab_id = ''c1'', tab_title = ''other topic'', tab_timestamp = None,
        tab_bubbles = [\<lparr>turn_type = Ai, turn_text = ''Fix the bug\<newline>more text, and then more'', turn_timestamp = 100\<rparr>,
                       \<lparr>turn_type = Ai, turn_text = ''other topic'', turn_timestamp = 200\<rparr>],
        tab_codeBlockDiffs = []\<rparr>, n)"
  unfolding assemble_conversation_def ex_headers ex_no_rows
  by (simp add: ex_header_bubbles_b9_b4 ex_title_other sort_timestamp_def timestamp_or_now_def
        del: header_bubbles.simps)

text \<open>
  Claim C6 as stated does not hold. The title is computed from \<^verbatim>\<open>bubbles[0]\<close> before
  the diff turns are appended and before the sort, so it comes from the first
  header-derived turn in header order, which need not be the first turn of the returned
  conversation. With the headers [b9, b4], b9 (timestamp 200) reading \<open>other topic\<close> and
  b4 (timestamp 100) beginning with \<open>Fix the bug\<close>, a line break and \<open>more text\<close>, the
  returned conversation has no stored name and its first turn is b4, yet its title is
  \<open>other topic\<close>.
\<close>

theorem title_of_later_turn_counterexample:
  "assemble_conversation ex_clock (ex_composer [''b9'', ''b4'']) ''c1''
       [''b4'' \<mapsto> ex_fix, ''b9'' \<mapsto> ex_other] Map.empty Map.empty 0 =
     (Some \<lparr>tab_id = ''c1'', tab_title = ''other topic'', tab_timestamp = None,
        tab_bubbles = [\<lparr>turn_type = Ai, turn_text = ''Fix the bug\<newline>more text, and then more'', turn_timestamp = 100\<rparr>,
                       \<lparr>turn_type = Ai, turn_text = ''other topic'', turn_timestamp = 200\<rparr>],
        tab_codeBlockDiffs = []\<rparr>, 0)
   \<and> cd_name (ex_composer [''b9'', ''b4'']) = None
   \<and> first_nonempty_line ''Fix the bug\<newline>more text, and then more'' = Some ''Fix the bug''
   \<and> ''other topic'' \<noteq> ''Fix the bug''"
  using first_line_example[of "'', and then more''"] by (simp add: ex_assemble_b9_b4 ex_headers)

text \<open>
  Claim C6, amended. In every returned conversation the title is the stored name when
  that is non-empty. Otherwise it is derived from the first header-derived turn in header
  order (\<^verbatim>\<open>bubbles[0]\<close> when the title is computed): the first line of its text that is
  not blank after trimming, taken untrimmed and cut by the truncation rule, so that a line
  of 100 characters or more gives its first 100 characters followed by \<open>...\<close>. Such a
  line always exists, so the placeholder, which is the initial value of the title, is
  never the title of a returned conversation. A first header-derived turn whose text
  begins with \<open>Fix the bug\<close>, a line break and \<open>more text\<close> gives the title
  \<open>Fix the bug\<close>. When no other turn of the conversation has a smaller timestamp, the
  first header-derived turn is also the first turn of the returned conversation.
\<close>

theorem title_from_first_header_turn:
  assumes "assemble_conversation clk cd cid bm dm cm n = (Some tab, n')"
  shows "\<exists>first others n1 diffs.
           header_bubbles clk bm (table_list cm cid) (headers_of cd) n = (Some (first # others), n1)
         \<and> table_list dm cid = Some diffs
         \<and> (truthy (cd_name cd) \<longrightarrow> tab_title tab = js_str (cd_name cd))
         \<and> (\<not> truthy (cd_name cd) \<longrightarrow>
              (\<exists>line. first_nonempty_line (turn_text first) = Some line
                 \<and> tab_title tab = (if length line < 100 then line else take 100 line @ ''...'')))
         \<and> (\<not> truthy (cd_name cd) \<longrightarrow> (\<exists>rest. turn_text first = ''Fix the bug\<newline>more text'' @ rest)
              \<longrightarrow> tab_title tab = ''Fix the bug'')
         \<and> ((\<forall>t\<in>set (others @ fst (diff_bubbles clk diffs n1)). turn_timestamp first \<le> turn_timestamp t)
              \<longrightarrow> (\<exists>f rest. tab_bubbles tab = f # rest \<and> turn_text f = turn_text first
                      \<and> turn_type f = turn_type first))"
proof -
  from assms obtain bubbles n1 diffs diffBubbles n2 final where
    h: "header_bubbles clk bm (table_list cm cid) (headers_of cd) n = (Some bubbles, n1)" and
    ne: "bubbles \<noteq> []" and
    t: "table_list dm cid = Some diffs" and
    d: "diff_bubbles clk diffs n1 = (diffBubbles, n2)" and
    f: "final_bubbles clk (sort_key sort_timestamp (bubbles @ diffBubbles)) n2 = (final, n')" and
    tab: "tab = \<lparr>tab_id = cid, tab_title = conversation_title (cd_name cd) cid bubbles,
            tab_timestamp = tab_time cd, tab_bubbles = final, tab_codeBlockDiffs = diffs\<rparr>"
    by (rule assemble_Some)
  from ne obtain first others where b: "bubbles = first # others" by (cases bubbles) auto
  from header_bubbles_props[OF h, of first] b have "trim (turn_text first) \<noteq> []" by simp
  then have "first_nonempty_line (turn_text first) \<noteq> None" by (rule nonblank_has_line)
  then obtain line where line: "first_nonempty_line (turn_text first) = Some line" by auto
  from tab b have title: "tab_title tab = conversation_title (cd_name cd) cid (first # others)" by simp
  have c1: "truthy (cd_name cd) \<longrightarrow> tab_title tab = js_str (cd_name cd)"
    using title by (simp add: conversation_title_cases)
  have c2: "\<not> truthy (cd_name cd) \<longrightarrow>
              (\<exists>line. first_nonempty_line (turn_text first) = Some line
                 \<and> tab_title tab = (if length line < 100 then line else take 100 line @ ''...''))"
    using title line by (simp add: conversation_title_cases)
  have c3: "\<not> truthy (cd_name cd) \<longrightarrow> (\<exists>rest. turn_text first = ''Fix the bug\<newline>more text'' @ rest)
              \<longrightarrow> tab_title tab = ''Fix the bug''"
    using title first_line_example by (auto simp: conversation_title_cases)
  have c4: "(\<forall>t\<in>set (others @ fst (diff_bubbles clk diffs n1)). turn_timestamp first \<le> turn_timestamp t)
              \<longrightarrow> (\<exists>f rest. tab_bubbles tab = f # rest \<and> turn_text f = turn_text first
                      \<and> turn_type f = turn_type first)"
  proof
    assume "\<forall>t\<in>set (others @ fst (diff_bubbles clk diffs n1)). turn_timestamp first \<le> turn_timestamp t"
    with d have "\<forall>t\<in>set (others @ diffBubbles). sort_timestamp first \<le> sort_timestamp t"
      by (simp add: sort_timestamp_eq)
    from sort_key_least[OF this] b
    have "sort_key sort_timestamp (bubbles @ diffBubbles) = first # sort_key sort_timestamp (others @ diffBubbles)"
      by simp
    with final_bubbles_text[OF f]
    have "map turn_text final = turn_text first # map turn_text (sort_key sort_timestamp (others @ diffBubbles))"
      and "map turn_type final = turn_type first # map turn_type (sort_key sort_timestamp (others @ diffBubbles))"
      by simp_all
    then obtain f rest where "final = f # rest" "turn_text f = turn_text first" "turn_type f = turn_type first"
      by (cases final) auto
    with tab show "\<exists>f rest. tab_bubbles tab = f # rest \<and> turn_text f = turn_text first
                      \<and> turn_type f = turn_type first" by simp
  qed
  from h b t c1 c2 c3 c4 show ?thesis by blast
qed

theorem title_from_first_header_turn_witness:
  "assemble_conversation (\<lambda>k. 1000 + int k) (ex_composer [''b4'', ''b9'']) ''c1''
       [''b4'' \<mapsto> ex_fix, ''b9'' \<mapsto> ex_other] Map.empty Map.empty 0 =
     (Some \<lparr>tab_id = ''c1'', tab_title = ''Fix the bug'', tab_timestamp = None,
        tab_bubbles = [\<lparr>turn_type = Ai, turn_text = ''Fix the bug\<newline>more text, and then more'', turn_timestamp = 100\<rparr>,
                       \<lparr>turn_type = Ai, turn_text = ''other topic'', turn_timestamp = 200\<rparr>],
        tab_codeBlockDiffs = []\<rparr>, 0)
   \<and> \<not> truthy (cd_name (ex_composer [''b4'', ''b9'']))
   \<and> (\<exists>first others n1.
         header_bubbles (\<lambda>k. 1000 + int k) [''b4'' \<mapsto> ex_fix, ''b9'' \<mapsto> ex_other] (table_list Map.empty ''c1'')
            (headers_of (ex_composer [''b4'', ''b9''])) 0 = (Some (first # others), n1)
         \<and> turn_text first = ''Fix the bug\<newline>more text'' @ '', and then more''
         \<and> tab_title \<lparr>tab_id = ''c1'', tab_title = ''Fix the bug'', tab_timestamp = None,
              tab_bubbles = [\<lparr>turn_type = Ai, turn_text = ''Fix the bug\<newline>more text, and then more'',
                                turn_timestamp = 100\<rparr>,
                             \<lparr>turn_type = Ai, turn_text = ''other topic'', turn_timestamp = 200\<rparr>],
              tab_codeBlockDiffs = []\<rparr> = ''Fix the bug'')"
proof -
  note a = ex_assemble_b4_b9[of "\<lambda>k. 1000 + int k" 0]
  have n: "\<not> truthy (cd_name (ex_composer [''b4'', ''b9'']))" by (simp add: ex_headers truthy_def)
  from title_from_first_header_turn[OF a] obtain first others n1 where
    h: "header_bubbles (\<lambda>k. 1000 + int k) [''b4'' \<mapsto> ex_fix, ''b9'' \<mapsto> ex_other] (table_list Map.empty ''c1'')
            (headers_of (ex_composer [''b4'', ''b9''])) 0 = (Some (first # others), n1)" and
    c: "\<not> truthy (cd_name (ex_composer [''b4'', ''b9''])) \<longrightarrow>
          (\<exists>rest. turn_text first = ''Fix the bug\<newline>more text'' @ rest) \<longrightarrow>
          tab_title \<lparr>tab_id = ''c1'', tab_title = ''Fix the bug'', tab_timestamp = None,
              tab_bubbles = [\<lparr>turn_type = Ai, turn_text = ''Fix the bug\<newline>more text, and then more'',
                                turn_timestamp = 100\<rparr>,
                             \<lparr>turn_type = Ai, turn_text = ''other topic'', turn_timestamp = 200\<rparr>],
              tab_codeBlockDiffs = []\<rparr> = ''Fix the bug''"
    by blast
  from h have f: "turn_text first = ''Fix the bug\<newline>more text'' @ '', and then more''"
    by (auto simp: ex_headers ex_no_rows ex_header_bubbles_b4_b9 simp del: header_bubbles.simps)
  with c n have "tab_title \<lparr>tab_id = ''c1'', tab_title = ''Fix the bug'', tab_timestamp = None,
              tab_bubbles = [\<lparr>turn_type = Ai, turn_text = ''Fix the bug\<newline>more text, and then more'',
                                turn_timestamp = 100\<rparr>,
                             \<lparr>turn_type = Ai, turn_text = ''other topic'', turn_timestamp = 200\<rparr>],
              tab_codeBlockDiffs = []\<rparr> = ''Fix the bug''" by blast
  with a n h f show ?thesis by blast
qed



subsection \<open>Text extraction\<close>

lemma code_blocks_text_valid:
  "None \<notin> set blocks \<Longrightarrow>
     code_blocks_text blocks =
       Some (concat (map (\<lambda>block. case block of None \<Rightarrow> [] | Some codeBlock \<Rightarrow> code_block_text codeBlock) blocks))"
  by (induction blocks rule: code_blocks_text.induct) auto

lemma code_blocks_text_null: "None \<in> set blocks \<Longrightarrow> code_blocks_text blocks = None"
  by (induction blocks rule: code_blocks_text.induct) auto

lemma direct_then_rich: "direct_text b = Some d \<Longrightarrow> rich_text b d = base_text b"
proof (cases "b_text b")
  case None
  assume "direct_text b = Some d"
  with None show ?thesis
    by (auto simp: direct_text_def rich_text_def base_text_def flattened_rich_text_def
          split: option.splits parsed.splits)
next
  case (Some v)
  assume d: "direct_text b = Some d"
  show ?thesis
  proof (cases v)
    case NonString
    with Some d show ?thesis by (simp add: direct_text_def)
  next
    case (Str t)
    show ?thesis
    proof (cases "trim t = []")
      case True
      with Some Str d show ?thesis
        by (auto simp: direct_text_def rich_text_def base_text_def flattened_rich_text_def
              split: option.splits parsed.splits)
    next
      case False
      then have "t \<noteq> []" by (auto simp: trim_blank(2))
      with Some Str d False show ?thesis
        by (auto simp: direct_text_def rich_text_def base_text_def)
    qed
  qed
qed

lemma extract_valid:
  assumes "valid_bubble b"
  shows "extractTextFromBubble b = Some (base_text b @ attached_code_blocks b)"
proof -
  from assms have "direct_text b \<noteq> None"
    by (auto simp: valid_bubble_def direct_text_def split: option.splits js_text.splits)
  then obtain d where d: "direct_text b = Some d" by auto
  show ?thesis
  proof (cases "b_codeBlocks b")
    case None
    with d direct_then_rich[OF d] show ?thesis
      by (simp add: extractTextFromBubble_def attached_code_blocks_def)
  next
    case (Some blocks)
    with assms have "None \<notin> set blocks" by (simp add: valid_bubble_def)
    from code_blocks_text_valid[OF this] Some d direct_then_rich[OF d] show ?thesis
      by (simp add: extractTextFromBubble_def attached_code_blocks_def)
  qed
qed

lemma extract_invalid:
  assumes "\<not> valid_bubble b"
  shows "extractTextFromBubble b = None"
proof (cases "b_text b = Some NonString")
  case True
  then show ?thesis by (simp add: extractTextFromBubble_def direct_text_def)
next
  case False
  with assms obtain blocks where "b_codeBlocks b = Some blocks" "None \<in> set blocks"
    by (cases "b_codeBlocks b") (auto simp: valid_bubble_def)
  with code_blocks_text_null[of blocks] show ?thesis
    by (simp add: extractTextFromBubble_def split: option.splits)
qed

lemma ex_rich_flat:
  "flattened_rich_text ex_rich = ''see \<newline>```\<newline>x = 1\<newline>```\<newline>''"
  by (simp add: flattened_rich_text_def ex_rich_def truthy_def js_str_def)

lemma ex_rich_blocks: "attached_code_blocks ex_rich = ''\<newline>\<newline>```ts\<newline>let y\<newline>```''"
  by (simp add: attached_code_blocks_def ex_rich_def code_block_text_def truthy_def js_str_def or_else_def)

lemma ex_rich_valid: "valid_bubble ex_rich"
  by (simp add: valid_bubble_def ex_rich_def)

lemma trim_space: "trim '' '' = []"
  by (simp add: trim_def is_space_def)

lemma ex_rich_text:
  "extractTextFromBubble ex_rich = Some ''see \<newline>```\<newline>x = 1\<newline>```\<newline>\<newline>\<newline>```ts\<newline>let y\<newline>```''"
proof -
  have "base_text ex_rich = flattened_rich_text ex_rich"
    by (simp add: base_text_def ex_rich_def[THEN arg_cong, of b_text] trim_space)
  with extract_valid[OF ex_rich_valid] show ?thesis by (simp add: ex_rich_flat ex_rich_blocks)
qed

text \<open>
  Claim C9 as stated does not hold. The claim and the specification give precedence to a
  direct text that is non-empty; the code tests \<^verbatim>\<open>bubble.text.trim()\<close> and so gives it
  to a direct text that is not blank. A bubble whose text is one space and which carries
  rich text yields the flattened rich text where the stated precedence yields the space,
  and a bubble whose text is two spaces and nothing else yields the empty string where
  the stated precedence yields the two spaces.
\<close>

theorem blank_direct_text_counterexample:
  "b_text ex_rich = Some (Str '' '')
   \<and> spec_extract ex_rich = '' \<newline>\<newline>```ts\<newline>let y\<newline>```''
   \<and> extractTextFromBubble ex_rich = Some ''see \<newline>```\<newline>x = 1\<newline>```\<newline>\<newline>\<newline>```ts\<newline>let y\<newline>```''
   \<and> extractTextFromBubble ex_rich \<noteq> Some (spec_extract ex_rich)
   \<and> b_text ex_blank = Some (Str ''  '') \<and> b_richText ex_blank = None \<and> b_codeBlocks ex_blank = None
   \<and> spec_extract ex_blank = ''  ''
   \<and> extractTextFromBubble ex_blank = Some []"
proof -
  have s: "spec_extract ex_rich = '' \<newline>\<newline>```ts\<newline>let y\<newline>```''"
    by (simp add: spec_extract_def spec_base_text_def ex_rich_blocks ex_rich_def[THEN arg_cong, of b_text])
  have b: "spec_extract ex_blank = ''  ''"
    by (simp add: spec_extract_def spec_base_text_def attached_code_blocks_def ex_blank_def)
  have f: "b_text ex_rich = Some (Str '' '')"
    "b_text ex_blank = Some (Str ''  '')" "b_richText ex_blank = None" "b_codeBlocks ex_blank = None"
    by (simp_all add: ex_rich_def ex_blank_def)
  from s b f ex_rich_text ex_text_blank show ?thesis by simp
qed

text \<open>
  Claim C9, amended. On every valid bubble payload (a text that is absent or a string, no
  \<^verbatim>\<open>null\<close> among the code blocks) text extraction returns a string and does not throw; on
  every other payload it throws a \<^verbatim>\<open>TypeError\<close>. The base text is the direct text
  when it is not blank after trimming, else the flattened rich text, else empty, also
  when the rich text does not parse; the attached code blocks are appended in every case.
  A valid payload whose direct text is absent or blank, which has no rich text to
  flatten and whose code blocks add nothing yields the empty string.
\<close>

theorem text_extraction_precedence:
  "(valid_bubble b \<longrightarrow> extractTextFromBubble b = Some (base_text b @ attached_code_blocks b))
   \<and> (\<not> valid_bubble b \<longrightarrow> extractTextFromBubble b = None)
   \<and> (\<forall>t. b_text b = Some (Str t) \<longrightarrow> trim t \<noteq> [] \<longrightarrow> base_text b = t)
   \<and> ((\<forall>t. b_text b = Some (Str t) \<longrightarrow> trim t = []) \<longrightarrow> base_text b = flattened_rich_text b)
   \<and> ((\<forall>t. b_text b = Some (Str t) \<longrightarrow> trim t = [])
        \<longrightarrow> (b_richText b = None \<or> b_richText b = Some Unparsable \<or> b_richText b = Some (Parsed None))
        \<longrightarrow> base_text b = [])
   \<and> (valid_bubble b \<longrightarrow> (\<forall>t. b_text b = Some (Str t) \<longrightarrow> trim t = [])
        \<longrightarrow> (b_richText b = None \<or> b_richText b = Some Unparsable \<or> b_richText b = Some (Parsed None))
        \<longrightarrow> attached_code_blocks b = [] \<longrightarrow> extractTextFromBubble b = Some [])"
proof (intro conjI allI impI)
  assume "valid_bubble b"
  then show "extractTextFromBubble b = Some (base_text b @ attached_code_blocks b)" by (rule extract_valid)
next
  assume "\<not> valid_bubble b"
  then show "extractTextFromBubble b = None" by (rule extract_invalid)
next
  fix t assume "b_text b = Some (Str t)" "trim t \<noteq> []"
  then show "base_text b = t" by (simp add: base_text_def)
next
  assume "\<forall>t. b_text b = Some (Str t) \<longrightarrow> trim t = []"
  then show "base_text b = flattened_rich_text b"
    by (auto simp: base_text_def split: option.splits js_text.splits)
next
  assume "\<forall>t. b_text b = Some (Str t) \<longrightarrow> trim t = []"
    "b_richText b = None \<or> b_richText b = Some Unparsable \<or> b_richText b = Some (Parsed None)"
  then show "base_text b = []"
    by (auto simp: base_text_def flattened_rich_text_def split: option.splits js_text.splits)
next
  assume v: "valid_bubble b" and a: "\<forall>t. b_text b = Some (Str t) \<longrightarrow> trim t = []"
    "b_richText b = None \<or> b_richText b = Some Unparsable \<or> b_richText b = Some (Parsed None)"
    and c: "attached_code_blocks b = []"
  from a have "base_text b = []"
    by (auto simp: base_text_def flattened_rich_text_def split: option.splits js_text.splits)
  with extract_valid[OF v] c show "extractTextFromBubble b = Some []" by simp
qed

theorem text_extraction_precedence_witness:
  "valid_bubble ex_rich \<and> b_text ex_rich = Some (Str '' '') \<and> trim '' '' = []
   \<and> extractTextFromBubble ex_rich = Some ''see \<newline>```\<newline>x = 1\<newline>```\<newline>\<newline>\<newline>```ts\<newline>let y\<newline>```''
   \<and> valid_bubble ex_bare \<and> b_text ex_bare = None \<and> b_richText ex_bare = None \<and> b_codeBlocks ex_bare = None
   \<and> extractTextFromBubble ex_bare = Some []
   \<and> \<not> valid_bubble ex_number_text \<and> extractTextFromBubble ex_number_text = None
   \<and> \<not> valid_bubble ex_null_block \<and> extractTextFromBubble ex_null_block = None"
proof -
  have r0: "b_text ex_rich = Some (Str '' '')" "trim '' '' = []"
    by (simp_all add: ex_rich_def trim_space)
  then have r: "\<forall>t. b_text ex_rich = Some (Str t) \<longrightarrow> trim t = []" by simp
  have b0: "b_text ex_bare = None" "b_richText ex_bare = None" "b_codeBlocks ex_bare = None"
    by (simp_all add: ex_bare_def)
  then have b: "\<forall>t. b_text ex_bare = Some (Str t) \<longrightarrow> trim t = []" by simp
  have bv: "valid_bubble ex_bare" by (simp add: valid_bubble_def ex_bare_def)
  have bc: "attached_code_blocks ex_bare = []" by (simp add: attached_code_blocks_def ex_bare_def)
  have nv: "\<not> valid_bubble ex_number_text" "\<not> valid_bubble ex_null_block"
    by (simp_all add: valid_bubble_def ex_number_text_def ex_null_block_def)
  note t = text_extraction_precedence[of ex_rich]
  from t[THEN conjunct2, THEN conjunct2, THEN conjunct2, THEN conjunct1] r
  have "base_text ex_rich = flattened_rich_text ex_rich" by blast
  with t[THEN conjunct1] ex_rich_valid
  have e: "extractTextFromBubble ex_rich = Some ''see \<newline>```\<newline>x = 1\<newline>```\<newline>\<newline>\<newline>```ts\<newline>let y\<newline>```''"
    by (simp add: ex_rich_flat ex_rich_blocks)
  from text_extraction_precedence[of ex_bare, THEN conjunct2, THEN conjunct2, THEN conjunct2, THEN conjunct2,
      THEN conjunct2] bv b b0 bc
  have e2: "extractTextFromBubble ex_bare = Some []" by blast
  from text_extraction_precedence[of ex_number_text, THEN conjunct2, THEN conjunct1] nv(1)
  have e3: "extractTextFromBubble ex_number_text = None" by blast
  from text_extraction_precedence[of ex_null_block, THEN conjunct2, THEN conjunct1] nv(2)
  have e4: "extractTextFromBubble ex_null_block = None" by blast
  from ex_rich_valid r0 e bv b0 e2 nv e3 e4 show ?thesis by blast
qed

subsection \<open>The formatter\<close>

text \<open>
  Claim C8. The formatter is a function of its payload. Its output is the concatenation
  of the optional sections in one fixed order (code changes, file path, command, search
  results, web results, tool name with parameters and result, actions taken, files
  modified, git status, directory listing, web search results), each section computed
  from its own fields; two payloads that agree on these fields give the same text.
\<close>

theorem formatter_sections_fixed:
  "formatToolAction (Some a) =
      sec_code_changes (newModelDiffWrtV0 a) @ sec_file (filePath a) @ sec_command (command a)
      @ sec_search_results (searchResults a) @ sec_web_results (webResults a)
      @ sec_tool (toolName a) (parameters a) (result a) @ sec_actions_taken (actionsTaken a)
      @ sec_files_modified (filesModified a) @ sec_git_status (gitStatus a)
      @ sec_directory_listed (directoryListed a) @ sec_web_search_results (webSearchResults a)
   \<and> (\<forall>a'. newModelDiffWrtV0 a' = newModelDiffWrtV0 a \<and> filePath a' = filePath a \<and> command a' = command a
          \<and> searchResults a' = searchResults a \<and> webResults a' = webResults a \<and> toolName a' = toolName a
          \<and> parameters a' = parameters a \<and> result a' = result a \<and> actionsTaken a' = actionsTaken a
          \<and> filesModified a' = filesModified a \<and> gitStatus a' = gitStatus a
          \<and> directoryListed a' = directoryListed a \<and> webSearchResults a' = webSearchResults a
        \<longrightarrow> formatToolAction (Some a') = formatToolAction (Some a))"
  by (simp add: formatToolAction_def)

lemma ex_tool_text:
  "formatToolAction (Some ex_tool) =
     ''\<newline>\<newline>**Code Changes:**\<newline>```\<newline>a\<newline>b\<newline>```\<newline>\<newline>**File:** a.ts\<newline>\<newline>**Tool Action:** run\<newline>**Command:** `ls`\<newline>\<newline>**Exit Code:** 0\<newline>\<newline>**Actions Taken:** x, y\<newline>\<newline>**Git Status:**\<newline>```\<newline>clean\<newline>```\<newline>\<newline>**Web Search Results:**''"
  by (simp add: formatToolAction_def ex_tool_def sec_code_changes_def sec_file_def sec_command_def
        sec_search_results_def sec_web_results_def sec_tool_def sec_actions_taken_def sec_files_modified_def
        sec_git_status_def sec_directory_listed_def sec_web_search_results_def truthy_def js_str_def
        params_text_def result_text_def)

theorem formatter_sections_fixed_witness:
  "newModelDiffWrtV0 (ex_tool\<lparr>diffId := Some ''d2''\<rparr>) = newModelDiffWrtV0 ex_tool
   \<and> ex_tool\<lparr>diffId := Some ''d2''\<rparr> \<noteq> ex_tool
   \<and> formatToolAction (Some (ex_tool\<lparr>diffId := Some ''d2''\<rparr>)) = formatToolAction (Some ex_tool)
   \<and> formatToolAction (Some ex_tool) =
     ''\<newline>\<newline>**Code Changes:**\<newline>```\<newline>a\<newline>b\<newline>```\<newline>\<newline>**File:** a.ts\<newline>\<newline>**Tool Action:** run\<newline>**Command:** `ls`\<newline>\<newline>**Exit Code:** 0\<newline>\<newline>**Actions Taken:** x, y\<newline>\<newline>**Git Status:**\<newline>```\<newline>clean\<newline>```\<newline>\<newline>**Web Search Results:**''"
proof -
  have d: "ex_tool\<lparr>diffId := Some ''d2''\<rparr> \<noteq> ex_tool"
  proof
    assume "ex_tool\<lparr>diffId := Some ''d2''\<rparr> = ex_tool"
    then have "diffId (ex_tool\<lparr>diffId := Some ''d2''\<rparr>) = diffId ex_tool" by simp
    then show False by (simp add: ex_tool_def)
  qed
  from formatter_sections_fixed[of ex_tool, THEN conjunct2, THEN spec, of "ex_tool\<lparr>diffId := Some ''d2''\<rparr>"]
  have "formatToolAction (Some (ex_tool\<lparr>diffId := Some ''d2''\<rparr>)) = formatToolAction (Some ex_tool)"
    by simp
  with d ex_tool_text show ?thesis by simp
qed

subsection \<open>Project attribution\<close>

lemma ex_workspace_entries: "workspace_entries ex_fs ''/ws'' (the (readdir ex_fs)) = ex_entries"
  by (simp add: workspace_entries_def ex_fs_def ex_entries_def path_join3_def)

lemma ex_normalize_folder:
  "normalize_folder ''file:///Users/evaran/alpha'' = ''alpha''"
  "normalize_folder ''file:///Users/evaran/beta'' = ''beta''"
  "normalize_folder ''file:///Users/evaran/gamma'' = ''gamma''"
  by (simp_all add: normalize_folder_def strip_prefix_def startsWith_def home_prefix_def)

lemma ex_names_created: "createProjectNameToWorkspaceIdMap ex_fs ex_entries = ex_names"
  by (rule ext)
     (simp add: createProjectNameToWorkspaceIdMap_def ex_fs_def ex_entries_def ex_names_def truthy_def js_str_def
        folder_name_def startsWith_def table_put_string_def)

lemma ex_scan:
  "scan_entries ex_fs p ex_entries =
     (if startsWith p ''alpha'' then Some ''w1'' else if startsWith p ''beta'' then Some ''w2''
      else if startsWith p ''gamma'' then Some ''w3'' else None)"
  by (simp add: ex_entries_def ex_fs_def truthy_def js_str_def ex_normalize_folder)

lemma ex_created_beta:
  "created_tier ex_fs ex_entries (ex_files_composer [''/Users/evaran/beta/src/x.ts''] []) = Some ''w2''"
  by (simp add: created_tier_def ex_files_composer_def created_paths_def List.map_filter_simps uri_candidate_def
        truthy_def getProjectFromFilePath_def strip_prefix_def home_prefix_def ex_scan startsWith_def)

lemma ex_path_layouts:
  "build_projectLayoutsMap [(''messageRequestContext:c1:b1'', Some ex_path_context)]
     = [''c1'' \<mapsto> [''/Users/evaran/alpha'']]"
  by (rule ext)
     (simp add: build_projectLayoutsMap_def ex_path_context_def table_append_def table_get_def
        object_prototype_names_def layout_roots_def List.map_filter_simps truthy_def)

lemma ex_names_get:
  "table_get ex_names ''alpha'' = Some (Own ''w1'')"
  "table_get ex_names ''/Users/evaran/alpha'' = None"
  "table_get ex_names ''constructor'' = Some (Inherited ''constructor'')"
  by (simp_all add: table_get_def ex_names_def object_prototype_names_def)

text \<open>
  With the lookup the code performs, the tiers are tried in order: the first hint under
  which the index answers something truthy decides, whatever the file evidence is, and the
  file tiers are reached only when no hint does.
\<close>

lemma layout_tier_first:
  assumes "\<forall>h\<in>set before. table_get names h = None \<or> table_get names h = Some (Own [])"
    and "table_get names hint = Some (Own A)" and "A \<noteq> []"
  shows "layout_tier names (before @ hint # after) = Project A"
  using assms by (induction before) auto

lemma layout_tier_decides:
  assumes "table_list layouts cid = Some hints" and "layout_tier names hints = Project A"
  shows "determineProjectForConversation fs cd cid layouts names es bm = Project A"
  using assms by (simp add: determineProjectForConversation_def)

lemma file_tiers_after_layout:
  assumes "table_list layouts cid = Some hints" and "layout_tier names hints = NoProject"
  shows "determineProjectForConversation fs cd cid layouts names es bm =
     (case created_tier fs es cd of
        Some B \<Rightarrow> Project B
      | None \<Rightarrow>
          (case code_block_tier fs es cd of
             Some C \<Rightarrow> Project C
           | None \<Rightarrow> (case bubble_tier fs es bm (headers_of cd) of Some D \<Rightarrow> Project D | None \<Rightarrow> NoProject)))"
  using assms by (simp add: determineProjectForConversation_def)

lemma ex_beta_determine:
  "determineProjectForConversation ex_fs ex_beta_composer ''c1'' [''c1'' \<mapsto> [''/Users/evaran/alpha'']]
      ex_names ex_entries bm = Project ''w2''"
proof -
  have "created_tier ex_fs ex_entries ex_beta_composer = Some ''w2''"
    by (simp add: created_tier_def ex_beta_composer_def created_paths_def List.map_filter_simps uri_candidate_def
          truthy_def getProjectFromFilePath_def strip_prefix_def home_prefix_def ex_scan startsWith_def)
  then show ?thesis
    by (simp add: determineProjectForConversation_def table_list_own ex_names_get)
qed

lemma ex_beta_assemble:
  "assemble_conversation clk ex_beta_composer ''c1'' (build_bubbleMap ex_bubble_rows) Map.empty
      [''c1'' \<mapsto> [ex_path_context]] n =
     (Some \<lparr>tab_id = ''c1'', tab_title = ''hello'', tab_timestamp = Some 7,
        tab_bubbles = [\<lparr>turn_type = User, turn_text = ''hello'', turn_timestamp = 100\<rparr>],
        tab_codeBlockDiffs = []\<rparr>, n)"
proof -
  have c: "context_text ex_path_context = []"
    by (simp add: context_text_def ex_path_context_def truthy_def terminal_files_text_def
          attached_folders_text_def cursor_rules_text_def summarized_composers_text_def)
  have h: "header_bubbles clk [''b1'' \<mapsto> ex_hello, ''b2'' \<mapsto> ex_world] (Some [ex_path_context])
      [\<lparr>h_bubbleId = Some ''b1'', h_type = Some 1\<rparr>] n =
   (Some [\<lparr>turn_type = User, turn_text = ''hello'', turn_timestamp = 100\<rparr>], n)"
    by (simp add: js_str_def lookup_bubble_own full_text_def ex_text_hello trim_hello timestamp_or_now_def c
        ex_hello_def[THEN arg_cong, of b_timestamp])
  have t: "table_list [''c1'' \<mapsto> [ex_path_context]] ''c1'' = Some [ex_path_context]"
    by (simp add: table_list_own)
  have f: "headers_of ex_beta_composer = [\<lparr>h_bubbleId = Some ''b1'', h_type = Some 1\<rparr>]"
    "cd_name ex_beta_composer = None" "tab_time ex_beta_composer = Some 7"
    by (simp_all add: headers_of_def ex_beta_composer_def tab_time_def)
  show ?thesis
    unfolding assemble_conversation_def ex_bubbleMap f ex_no_rows t
    by (simp add: h conversation_title_def or_else_def truthy_def trim_hello
        sort_timestamp_def timestamp_or_now_def del: header_bubbles.simps)
qed

lemma ex_path_GET_tabs:
  "GET_tabs clk ex_fs ''/ws'' (Db ex_path_store) ''w1'' = Json []"
  "GET_tabs clk ex_fs ''/ws'' (Db ex_path_store) ''w2'' =
     Json [\<lparr>tab_id = ''c1'', tab_title = ''hello'', tab_timestamp = Some 7,
        tab_bubbles = [\<lparr>turn_type = User, turn_text = ''hello'', turn_timestamp = 100\<rparr>],
        tab_codeBlockDiffs = []\<rparr>]"
proof -
  have r: "readdir ex_fs = Some (the (readdir ex_fs))" by (simp add: ex_fs_def)
  have k: "js_str (key_part ''composerData:c1'' (Suc 0)) = ''c1''" by (simp add: key_part_def js_str_def)
  have s: "bubbleRows ex_path_store = ex_bubble_rows" "codeBlockDiffRows ex_path_store = []"
    "messageRequestContextRows ex_path_store = [(''messageRequestContext:c1:b1'', Some ex_path_context)]"
    "composerRows ex_path_store = [(''composerData:c1'', Some ex_beta_composer)]"
    by (simp_all add: ex_path_store_def)
  have d: "build_codeBlockDiffMap [] = Map.empty" by (simp add: build_codeBlockDiffMap_def)
  have m: "build_messageRequestContextMap [(''messageRequestContext:c1:b1'', Some ex_path_context)]
      = [''c1'' \<mapsto> [ex_path_context]]"
    by (rule ext)
       (simp add: build_messageRequestContextMap_def table_append_def table_get_def object_prototype_names_def)
  show "GET_tabs clk ex_fs ''/ws'' (Db ex_path_store) ''w1'' = Json []"
    unfolding GET_tabs_def
    by (subst r) (simp add: ex_workspace_entries ex_names_created ex_path_layouts m s d k ex_beta_determine
          Let_def del: split.simps)
  show "GET_tabs clk ex_fs ''/ws'' (Db ex_path_store) ''w2'' =
     Json [\<lparr>tab_id = ''c1'', tab_title = ''hello'', tab_timestamp = Some 7,
        tab_bubbles = [\<lparr>turn_type = User, turn_text = ''hello'', turn_timestamp = 100\<rparr>],
        tab_codeBlockDiffs = []\<rparr>]"
    unfolding GET_tabs_def
    by (subst r) (simp add: ex_workspace_entries ex_names_created ex_path_layouts m s d k ex_beta_determine
          ex_beta_assemble Let_def del: split.simps)
qed

text \<open>
  Claim C2, evaluated at a conversation c1 whose one layout hint carries the root path
  \<open>/Users/evaran/alpha\<close> of workspace w1 and whose one newly created file lies in the
  folder of workspace w2. The final path segment of the hint is \<open>alpha\<close>, which the folder
  name index maps to w1, so the claim says that the resolver returns w1. The code looks
  the whole root path up in the index, finds nothing, goes on to the file tiers and
  returns w2. The hint resolves only when the root path is the bare folder name. The
  lookup also answers names that the index inherits from \<^verbatim>\<open>Object.prototype\<close>: with the
  hints \<open>constructor\<close> and \<open>alpha\<close> the resolver returns the inherited member instead of
  w1. Through the tabs handler, the request for w1 returns no conversation and the request
  for w2 returns c1.
\<close>

theorem layout_hint_loses_to_file_evidence:
  "createProjectNameToWorkspaceIdMap ex_fs ex_entries = ex_names
   \<and> build_projectLayoutsMap [(''messageRequestContext:c1:b1'', Some ex_path_context)]
       = [''c1'' \<mapsto> [''/Users/evaran/alpha'']]
   \<and> spec_layout_tier ex_names [''/Users/evaran/alpha''] = Some ''w1''
   \<and> created_tier ex_fs ex_entries (ex_files_composer [''/Users/evaran/beta/src/x.ts''] []) = Some ''w2''
   \<and> determineProjectForConversation ex_fs (ex_files_composer [''/Users/evaran/beta/src/x.ts''] []) ''c1''
        [''c1'' \<mapsto> [''/Users/evaran/alpha'']] ex_names ex_entries Map.empty = Project ''w2''
   \<and> determineProjectForConversation ex_fs (ex_files_composer [''/Users/evaran/beta/src/x.ts''] []) ''c1''
        [''c1'' \<mapsto> [''alpha'']] ex_names ex_entries Map.empty = Project ''w1''
   \<and> spec_layout_tier ex_names [''constructor'', ''alpha''] = Some ''w1''
   \<and> determineProjectForConversation ex_fs (ex_files_composer [''/Users/evaran/beta/src/x.ts''] []) ''c1''
        [''c1'' \<mapsto> [''constructor'', ''alpha'']] ex_names ex_entries Map.empty = PrototypeMember ''constructor''
   \<and> GET_tabs ex_clock ex_fs ''/ws'' (Db ex_path_store) ''w1'' = Json []
   \<and> GET_tabs ex_clock ex_fs ''/ws'' (Db ex_path_store) ''w2'' =
       Json [\<lparr>tab_id = ''c1'', tab_title = ''hello'', tab_timestamp = Some 7,
          tab_bubbles = [\<lparr>turn_type = User, turn_text = ''hello'', turn_timestamp = 100\<rparr>],
          tab_codeBlockDiffs = []\<rparr>]"
proof -
  have s1: "spec_layout_tier ex_names [''/Users/evaran/alpha''] = Some ''w1''"
    by (simp add: spec_hint_project_def final_segment_def ex_names_def)
  have s2: "spec_layout_tier ex_names [''constructor'', ''alpha''] = Some ''w1''"
    by (simp add: spec_hint_project_def final_segment_def ex_names_def)
  have d1: "determineProjectForConversation ex_fs (ex_files_composer [''/Users/evaran/beta/src/x.ts''] []) ''c1''
        [''c1'' \<mapsto> [''/Users/evaran/alpha'']] ex_names ex_entries Map.empty = Project ''w2''"
    by (simp add: determineProjectForConversation_def table_list_own ex_names_get ex_created_beta)
  have d2: "determineProjectForConversation ex_fs (ex_files_composer [''/Users/evaran/beta/src/x.ts''] []) ''c1''
        [''c1'' \<mapsto> [''alpha'']] ex_names ex_entries Map.empty = Project ''w1''"
    by (simp add: determineProjectForConversation_def table_list_own ex_names_get)
  have d3: "determineProjectForConversation ex_fs (ex_files_composer [''/Users/evaran/beta/src/x.ts''] []) ''c1''
        [''c1'' \<mapsto> [''constructor'', ''alpha'']] ex_names ex_entries Map.empty = PrototypeMember ''constructor''"
    by (simp add: determineProjectForConversation_def table_list_own ex_names_get)
  from ex_names_created ex_path_layouts s1 ex_created_beta d1 d2 s2 d3 ex_path_GET_tabs show ?thesis by simp
qed

subsection \<open>Path normalisation\<close>

text \<open>
  Claim C4, evaluated at the path \<open>file:///Users/evaran/alpha/src/a.ts\<close>, which lies in
  the folder of workspace w1. After the stated normalisation (scheme prefix, then home
  prefix) the path matches w1. As a key of the code block data it is attributed to w1.
  As the path of a newly created file, or as a file reference of a bubble in any of the
  three shapes, it is tested with the scheme in place and matches no project: only the
  loop over the code block data removes \<^verbatim>\<open>file://\<close> before the test. That loop removes
  the first \<^verbatim>\<open>file://\<close> wherever it stands, so the key
  \<open>/Users/evaran/file://alpha/x.ts\<close>, which has no scheme prefix, is attributed to w1 as
  well.
\<close>

theorem scheme_kept_outside_code_block_keys:
  "spec_project ex_fs ''file:///Users/evaran/alpha/src/a.ts'' ex_entries = Some ''w1''
   \<and> getProjectFromFilePath ex_fs ''file:///Users/evaran/alpha/src/a.ts'' ex_entries = None
   \<and> created_tier ex_fs ex_entries (ex_files_composer [''file:///Users/evaran/alpha/src/a.ts''] []) = None
   \<and> bubble_files ex_fs ex_entries (ex_ref_bubble ''file:///Users/evaran/alpha/src/a.ts'') = None
   \<and> code_block_tier ex_fs ex_entries (ex_files_composer [] [''file:///Users/evaran/alpha/src/a.ts'']) = Some ''w1''
   \<and> determineProjectForConversation ex_fs (ex_files_composer [''file:///Users/evaran/alpha/src/a.ts''] []) ''c1''
        Map.empty ex_names ex_entries Map.empty = NoProject
   \<and> determineProjectForConversation ex_fs (ex_files_composer [] [''file:///Users/evaran/alpha/src/a.ts'']) ''c1''
        Map.empty ex_names ex_entries Map.empty = Project ''w1''
   \<and> determineProjectForConversation ex_fs (ex_composer [''b1'']) ''c1'' Map.empty ex_names ex_entries
        [''b1'' \<mapsto> ex_ref_bubble ''file:///Users/evaran/alpha/src/a.ts''] = NoProject
   \<and> determineProjectForConversation ex_fs (ex_composer [''b1'']) ''c1'' Map.empty ex_names ex_entries
        [''b1'' \<mapsto> ex_ref_bubble ''/Users/evaran/alpha/src/a.ts''] = Project ''w1''
   \<and> spec_project ex_fs ''/Users/evaran/file://alpha/x.ts'' ex_entries = None
   \<and> code_block_tier ex_fs ex_entries (ex_files_composer [] [''/Users/evaran/file://alpha/x.ts'']) = Some ''w1''"
proof -
  have g: "getProjectFromFilePath ex_fs ''file:///Users/evaran/alpha/src/a.ts'' ex_entries = None"
    by (simp add: getProjectFromFilePath_def strip_prefix_def home_prefix_def ex_scan startsWith_def)
  have s: "spec_project ex_fs ''file:///Users/evaran/alpha/src/a.ts'' ex_entries = Some ''w1''"
    by (simp add: spec_project_def normalize_spec_def strip_prefix_def home_prefix_def ex_scan startsWith_def)
  have c: "created_tier ex_fs ex_entries (ex_files_composer [''file:///Users/evaran/alpha/src/a.ts''] []) = None"
    by (simp add: created_tier_def ex_files_composer_def created_paths_def List.map_filter_simps uri_candidate_def
          g truthy_def)
  have b: "bubble_files ex_fs ex_entries (ex_ref_bubble ''file:///Users/evaran/alpha/src/a.ts'') = None"
    by (simp add: bubble_files_def ex_ref_bubble_def relevant_paths_def attached_paths_def selection_paths_def
          List.map_filter_simps uri_candidate_def g truthy_def)
  have k: "code_block_tier ex_fs ex_entries (ex_files_composer [] [''file:///Users/evaran/alpha/src/a.ts'']) = Some ''w1''"
    by (simp add: code_block_tier_def ex_files_composer_def code_block_paths_def
          getProjectFromFilePath_def strip_prefix_def home_prefix_def ex_scan startsWith_def truthy_def)
  have e: "code_block_tier ex_fs ex_entries (ex_files_composer [''file:///Users/evaran/alpha/src/a.ts''] []) = None"
    by (simp add: code_block_tier_def ex_files_composer_def code_block_paths_def)
  have h: "headers_of (ex_files_composer created keys) = []" for created keys
    by (simp add: headers_of_def ex_files_composer_def)
  have n: "created_tier ex_fs ex_entries (ex_files_composer [] keys) = None" for keys
    by (simp add: created_tier_def ex_files_composer_def created_paths_def List.map_filter_simps)
  have d1: "determineProjectForConversation ex_fs (ex_files_composer [''file:///Users/evaran/alpha/src/a.ts''] []) ''c1''
        Map.empty ex_names ex_entries Map.empty = NoProject"
    by (simp add: determineProjectForConversation_def ex_no_rows c e h)
  have d2: "determineProjectForConversation ex_fs (ex_files_composer [] [''file:///Users/evaran/alpha/src/a.ts'']) ''c1''
        Map.empty ex_names ex_entries Map.empty = Project ''w1''"
    by (simp add: determineProjectForConversation_def ex_no_rows n k)
  have s2: "spec_project ex_fs ''/Users/evaran/file://alpha/x.ts'' ex_entries = None"
    by (simp add: spec_project_def normalize_spec_def strip_prefix_def home_prefix_def ex_scan startsWith_def)
  have k2: "code_block_tier ex_fs ex_entries (ex_files_composer [] [''/Users/evaran/file://alpha/x.ts'']) = Some ''w1''"
    by (simp add: code_block_tier_def ex_files_composer_def code_block_paths_def
          getProjectFromFilePath_def strip_prefix_def home_prefix_def ex_scan startsWith_def truthy_def)
  have t: "created_tier ex_fs ex_entries (ex_composer ids) = None"
    "code_block_tier ex_fs ex_entries (ex_composer ids) = None" for ids
    by (simp_all add: created_tier_def code_block_tier_def ex_composer_def)
  have b2: "bubble_files ex_fs ex_entries (ex_ref_bubble ''/Users/evaran/alpha/src/a.ts'') = Some ''w1''"
    by (simp add: bubble_files_def ex_ref_bubble_def relevant_paths_def
          getProjectFromFilePath_def strip_prefix_def home_prefix_def ex_scan startsWith_def truthy_def)
  have d3: "determineProjectForConversation ex_fs (ex_composer [''b1'']) ''c1'' Map.empty ex_names ex_entries
        [''b1'' \<mapsto> ex_ref_bubble ''file:///Users/evaran/alpha/src/a.ts''] = NoProject"
    by (simp add: determineProjectForConversation_def ex_no_rows t ex_headers js_str_def lookup_bubble_own b)
  have d4: "determineProjectForConversation ex_fs (ex_composer [''b1'']) ''c1'' Map.empty ex_names ex_entries
        [''b1'' \<mapsto> ex_ref_bubble ''/Users/evaran/alpha/src/a.ts''] = Project ''w1''"
    by (simp add: determineProjectForConversation_def ex_no_rows t ex_headers js_str_def lookup_bubble_own b2)
  from g s c b k d1 d2 d3 d4 s2 k2 show ?thesis by simp
qed

subsection \<open>Missing store files\<close>

lemma create_projects_missing_store:
  "e \<in> set es \<Longrightarrow> stat_mtime fs (path_join3 root (we_name e) ''state.vscdb'') = None \<Longrightarrow>
     create_projects fs root cmap es = None"
  by (induction es) (auto split: option.splits)

lemma GET_projects_missing_store:
  assumes "readdir fs = Some entries"
    and "e \<in> set (workspace_entries fs root entries)"
    and "stat_mtime fs (path_join3 root (we_name e) ''state.vscdb'') = None"
  shows "GET_projects fs root globalDb = Status500"
  using assms create_projects_missing_store[OF assms(2,3)]
  by (simp add: GET_projects_def Let_def)

text \<open>
  The workspace list handler on any listing: a directory without \<^verbatim>\<open>state.vscdb\<close> adds
  nothing, and the directories before and after it are processed as if it were not there.
\<close>

lemma workspace_without_store_skipped:
  "\<not> existsSync fs (path_join3 root (d_name e) ''state.vscdb'') \<Longrightarrow> workspace_of_entry fs root e = None"
  by (simp add: workspace_of_entry_def Let_def)

lemma GET_workspaces_skips_missing_store:
  assumes "readdir fs = Some (before @ e # after)"
    and "\<not> existsSync fs (path_join3 root (d_name e) ''state.vscdb'')"
  shows "GET_workspaces fs root =
     Json (List.map_filter (workspace_of_entry fs root) before @ List.map_filter (workspace_of_entry fs root) after)"
  using assms workspace_without_store_skipped[OF assms(2)]
  by (simp add: GET_workspaces_def List.map_filter_def)

text \<open>
  Claim C3, evaluated at a storage root whose directory w2 has a \<^verbatim>\<open>workspace.json\<close> but no
  \<^verbatim>\<open>state.vscdb\<close>, between w1 and w3 that have both. The claim says that w2 contributes
  nothing and that w1 and w3 are still returned. The workspace list handler does so. The
  projects handler reads the modification time of each store outside any inner
  \<^verbatim>\<open>try\<close>: it answers with status 500 and returns no project, with or without a global
  store.
\<close>

theorem projects_fail_on_missing_store:
  "readdir ex_fs = Some [\<lparr>d_name = ''w1'', d_isDirectory = True\<rparr>, \<lparr>d_name = ''w2'', d_isDirectory = True\<rparr>,
                         \<lparr>d_name = ''notes.txt'', d_isDirectory = False\<rparr>, \<lparr>d_name = ''w3'', d_isDirectory = True\<rparr>]
   \<and> \<not> existsSync ex_fs ''/ws/w2/state.vscdb'' \<and> stat_mtime ex_fs ''/ws/w2/state.vscdb'' = None
   \<and> GET_projects ex_fs ''/ws'' Missing = Status500
   \<and> GET_projects ex_fs ''/ws'' (Db \<lparr>bubbleRows = [], codeBlockDiffRows = [], messageRequestContextRows = [],
                                       composerRows = []\<rparr>) = Status500
   \<and> GET_workspaces ex_fs ''/ws'' =
       Json [\<lparr>w_id = ''w1'', w_path = ''/ws/w1/state.vscdb'', w_folder = Some ''file:///Users/evaran/alpha'',
               w_lastModified = 10, chatCount = 2\<rparr>,
             \<lparr>w_id = ''w3'', w_path = ''/ws/w3/state.vscdb'', w_folder = Some ''file:///Users/evaran/gamma'',
               w_lastModified = 30, chatCount = 0\<rparr>]"
proof -
  have r: "readdir ex_fs = Some [\<lparr>d_name = ''w1'', d_isDirectory = True\<rparr>, \<lparr>d_name = ''w2'', d_isDirectory = True\<rparr>,
                         \<lparr>d_name = ''notes.txt'', d_isDirectory = False\<rparr>, \<lparr>d_name = ''w3'', d_isDirectory = True\<rparr>]"
    by (simp add: ex_fs_def)
  have m: "\<not> existsSync ex_fs ''/ws/w2/state.vscdb''" "stat_mtime ex_fs ''/ws/w2/state.vscdb'' = None"
    by (simp_all add: ex_fs_def)
  have e: "\<lparr>we_name = ''w2'', workspaceJsonPath = ''/ws/w2/workspace.json''\<rparr>
      \<in> set (workspace_entries ex_fs ''/ws'' (the (readdir ex_fs)))"
    by (simp add: ex_workspace_entries ex_entries_def)
  have s: "stat_mtime ex_fs (path_join3 ''/ws'' (we_name \<lparr>we_name = ''w2'', workspaceJsonPath = ''/ws/w2/workspace.json''\<rparr>)
      ''state.vscdb'') = None"
    by (simp add: path_join3_def ex_fs_def)
  have p: "GET_projects ex_fs ''/ws'' db = Status500" for db
    using GET_projects_missing_store[OF r _ s] e r by simp
  have w: "GET_workspaces ex_fs ''/ws'' =
       Json [\<lparr>w_id = ''w1'', w_path = ''/ws/w1/state.vscdb'', w_folder = Some ''file:///Users/evaran/alpha'',
               w_lastModified = 10, chatCount = 2\<rparr>,
             \<lparr>w_id = ''w3'', w_path = ''/ws/w3/state.vscdb'', w_folder = Some ''file:///Users/evaran/gamma'',
               w_lastModified = 30, chatCount = 0\<rparr>]"
    by (simp add: GET_workspaces_def ex_fs_def List.map_filter_simps workspace_of_entry_def path_join3_def)
  from r m p w show ?thesis by simp
qed

subsection \<open>A request end to end\<close>

text \<open>
  The example store through the whole tabs handler: the layout hint of conversation c1
  names the folder of workspace w1, so the request for w1 returns the conversation with
  its turns world, hello, and the request for w3 returns no conversation.
\<close>

lemma ex_layouts: "build_projectLayoutsMap (messageRequestContextRows ex_store) = [''c1'' \<mapsto> [''alpha'']]"
  by (rule ext)
     (simp add: build_projectLayoutsMap_def ex_store_def ex_context_def table_append_def table_get_def
        object_prototype_names_def layout_roots_def List.map_filter_simps truthy_def)

lemma ex_contexts: "build_messageRequestContextMap (messageRequestContextRows ex_store) = [''c1'' \<mapsto> [ex_context]]"
  by (rule ext)
     (simp add: build_messageRequestContextMap_def ex_store_def table_append_def table_get_def
        object_prototype_names_def)

lemma ex_determine:
  "determineProjectForConversation ex_fs cd ''c1'' [''c1'' \<mapsto> [''alpha'']] ex_names ex_entries bm = Project ''w1''"
  by (simp add: determineProjectForConversation_def table_list_own ex_names_get)

lemma ex_assemble_store:
  "assemble_conversation clk (ex_composer [''b2'', ''b1'']) ''c1'' (build_bubbleMap ex_bubble_rows) Map.empty
      [''c1'' \<mapsto> [ex_context]] n =
     (Some \<lparr>tab_id = ''c1'', tab_title = ''world'', tab_timestamp = None,
        tab_bubbles = [\<lparr>turn_type = Ai, turn_text = ''world'', turn_timestamp = 50\<rparr>,
                       \<lparr>turn_type = Ai, turn_text = ''hello'', turn_timestamp = 100\<rparr>],
        tab_codeBlockDiffs = []\<rparr>, n)"
proof -
  have c: "context_text ex_context = []"
    by (simp add: context_text_def ex_context_def truthy_def terminal_files_text_def attached_folders_text_def
          cursor_rules_text_def summarized_composers_text_def)
  have h: "header_bubbles clk [''b1'' \<mapsto> ex_hello, ''b2'' \<mapsto> ex_world] (Some [ex_context])
      [\<lparr>h_bubbleId = Some ''b2'', h_type = None\<rparr>, \<lparr>h_bubbleId = Some ''b1'', h_type = None\<rparr>] n =
   (Some [\<lparr>turn_type = Ai, turn_text = ''world'', turn_timestamp = 50\<rparr>,
          \<lparr>turn_type = Ai, turn_text = ''hello'', turn_timestamp = 100\<rparr>], n)"
    by (simp add: js_str_def lookup_bubble_own full_text_def ex_text_hello ex_text_world trim_hello trim_world
        timestamp_or_now_def c
        ex_hello_def[THEN arg_cong, of b_timestamp] ex_world_def[THEN arg_cong, of b_timestamp])
  have t: "table_list [''c1'' \<mapsto> [ex_context]] ''c1'' = Some [ex_context]"
    by (simp add: table_list_own)
  show ?thesis
    unfolding assemble_conversation_def ex_bubbleMap ex_headers ex_no_rows t
    by (simp add: h conversation_title_def or_else_def truthy_def trim_world
        sort_timestamp_def timestamp_or_now_def del: header_bubbles.simps)
qed

lemma ex_GET_tabs:
  "GET_tabs clk ex_fs ''/ws'' (Db ex_store) ''w1'' =
     Json [\<lparr>tab_id = ''c1'', tab_title = ''world'', tab_timestamp = None,
        tab_bubbles = [\<lparr>turn_type = Ai, turn_text = ''world'', turn_timestamp = 50\<rparr>,
                       \<lparr>turn_type = Ai, turn_text = ''hello'', turn_timestamp = 100\<rparr>],
        tab_codeBlockDiffs = []\<rparr>]"
  "GET_tabs clk ex_fs ''/ws'' (Db ex_store) ''w3'' = Json []"
proof -
  have r: "readdir ex_fs = Some (the (readdir ex_fs))" by (simp add: ex_fs_def)
  have k: "js_str (key_part ''composerData:c1'' (Suc 0)) = ''c1''" by (simp add: key_part_def js_str_def)
  have s: "bubbleRows ex_store = ex_bubble_rows" "codeBlockDiffRows ex_store = []"
    "composerRows ex_store = [(''composerData:c0'', None), (''composerData:c1'', Some (ex_composer [''b2'', ''b1'']))]"
    by (simp_all add: ex_store_def)
  have d: "build_codeBlockDiffMap [] = Map.empty" by (simp add: build_codeBlockDiffMap_def)
  show "GET_tabs clk ex_fs ''/ws'' (Db ex_store) ''w1'' =
     Json [\<lparr>tab_id = ''c1'', tab_title = ''world'', tab_timestamp = None,
        tab_bubbles = [\<lparr>turn_type = Ai, turn_text = ''world'', turn_timestamp = 50\<rparr>,
                       \<lparr>turn_type = Ai, turn_text = ''hello'', turn_timestamp = 100\<rparr>],
        tab_codeBlockDiffs = []\<rparr>]"
    unfolding GET_tabs_def
    by (subst r) (simp add: ex_workspace_entries ex_names_created ex_layouts ex_contexts s d k ex_determine
          ex_assemble_store Let_def del: split.simps)
  show "GET_tabs clk ex_fs ''/ws'' (Db ex_store) ''w3'' = Json []"
    unfolding GET_tabs_def
    by (subst r) (simp add: ex_workspace_entries ex_names_created ex_layouts ex_contexts s d k ex_determine
          Let_def del: split.simps)
qed

end
